theory Spec2Isabelle
  imports Complex_Main "HOL-Library.Sublist"
begin

section \<open>Values, errors and the library the program calls\<close>

text \<open>
  The program is three Python modules: \<^verbatim>\<open>common.py\<close> (window parser, ETA formatter,
  template engine) and the two front ends \<^verbatim>\<open>claude.py\<close> and \<^verbatim>\<open>codex.py\<close>
  (window classifier, output, entry point).

  Conventions of the embedding.
  \<^item> A Python \<^verbatim>\<open>str\<close> is a \<^typ>\<open>string\<close>. The text handled is ASCII, one \<^typ>\<open>char\<close> per
    character; the few non-ASCII literals of the source (the prime signs of the
    placeholders, the icons) are held as their UTF-8 bytes. Character classes
    (\<^verbatim>\<open>\w\<close>, white space, digits) are the ASCII ones.
  \<^item> A Python \<^verbatim>\<open>float\<close> is a \<^typ>\<open>real\<close>: the finite values, computed exactly.
  \<^item> An exception is a value of \<open>error\<close>; a function that can raise returns
    \<open>error + 'a\<close>, and \<^verbatim>\<open>try/except Exception\<close> is a case distinction on it.
  \<^item> A point in time is a whole number of microseconds since the Unix epoch, the
    resolution of \<^verbatim>\<open>datetime\<close>. Every reading of the clock is an argument of the
    function that reads it.
  \<^item> Functions of the Python library whose results are not computed here
    (\<^verbatim>\<open>float\<close> on a string, \<^verbatim>\<open>datetime.fromisoformat\<close>, formatting of floats,
    attribute access and format specifications inside \<^verbatim>\<open>str.format\<close>) are fields of
    the record \<open>pylib\<close>, an argument of the functions that call them. Every theorem
    holds for every such library.
\<close>

datatype error =
    KeyError string
  | IndexError
  | ValueError
  | TypeError
  | AttributeError

text \<open>A decoded JSON document, which is also what the parsers receive.\<close>

datatype pyval =
    PNone
  | PBool bool
  | PInt int
  | PFloat real
  | PStr string
  | PList "pyval list"
  | PDict "(string \<times> pyval) list"

text \<open>Python's truth value of an object (\<^verbatim>\<open>if x\<close>, \<^verbatim>\<open>x or y\<close>, \<^verbatim>\<open>not x\<close>).\<close>

fun truthy :: "pyval \<Rightarrow> bool" where
  "truthy PNone = False"
| "truthy (PBool b) = b"
| "truthy (PInt n) = (n \<noteq> 0)"
| "truthy (PFloat x) = (x \<noteq> 0)"
| "truthy (PStr s) = (s \<noteq> [])"
| "truthy (PList xs) = (xs \<noteq> [])"
| "truthy (PDict kvs) = (kvs \<noteq> [])"

text \<open>\<^verbatim>\<open>x or y\<close>.\<close>

definition py_or :: "pyval \<Rightarrow> pyval \<Rightarrow> pyval" where
  "py_or x y = (if truthy x then x else y)"

text \<open>
  \<^verbatim>\<open>d.get(key, default)\<close>: only a dict has the method; every other object raises
  \<^verbatim>\<open>AttributeError\<close>. \<^verbatim>\<open>d.get(key)\<close> is \<open>py_get d key PNone\<close>.
\<close>

fun py_get :: "pyval \<Rightarrow> string \<Rightarrow> pyval \<Rightarrow> error + pyval" where
  "py_get (PDict kvs) k dflt = Inr (case map_of kvs k of None \<Rightarrow> dflt | Some v \<Rightarrow> v)"
| "py_get _ k dflt = Inl AttributeError"

text \<open>
  An instant is \<open>Aware\<close> (it has a UTC offset; the number is the microseconds since the
  epoch) or \<open>Naive\<close> (it has none).
\<close>

datatype datetime = Aware int | Naive int

text \<open>A value of the data mapping the template engine expands: a string or an integer.\<close>

datatype field_value = Text string | Number int

type_synonym fields = "string \<rightharpoonup> field_value"

text \<open>
  The library. \<open>float_of_str\<close> is \<^verbatim>\<open>float(s)\<close> and \<open>fromisoformat\<close> is
  \<^verbatim>\<open>datetime.fromisoformat(s)\<close>, \<open>None\<close> when they raise; \<open>format_float x spec\<close> is
  \<^verbatim>\<open>format(x, spec)\<close> of a float; \<open>dumps_indent\<close> is \<^verbatim>\<open>json.dumps(v, indent=2)\<close>. Inside
  \<^verbatim>\<open>str.format\<close>, \<open>resolve_field v rest conv\<close> follows the attribute and index part
  \<open>rest\<close> of a field name from the value \<open>v\<close> and applies the conversion \<open>conv\<close>, and
  \<open>format_value ob spec\<close> is \<^verbatim>\<open>format(ob, spec)\<close> of the object so found.
\<close>

record 'o pylib =
  float_of_str :: "string \<Rightarrow> real option"
  fromisoformat :: "string \<Rightarrow> datetime option"
  format_float :: "real \<Rightarrow> string \<Rightarrow> string"
  dumps_indent :: "pyval \<Rightarrow> string"
  resolve_field :: "field_value \<Rightarrow> string \<Rightarrow> char option \<Rightarrow> error + 'o"
  format_value :: "'o \<Rightarrow> string \<Rightarrow> error + string"

text \<open>
  \<^verbatim>\<open>float(x)\<close>: a number converts, a string is parsed by the library
  (\<^verbatim>\<open>ValueError\<close> when it is not a number), anything else is a \<^verbatim>\<open>TypeError\<close>.
\<close>

fun py_float :: "'o pylib \<Rightarrow> pyval \<Rightarrow> error + real" where
  "py_float L (PInt n) = Inr (of_int n)"
| "py_float L (PFloat x) = Inr x"
| "py_float L (PBool b) = Inr (if b then 1 else 0)"
| "py_float L (PStr s) = (case float_of_str L s of None \<Rightarrow> Inl ValueError | Some x \<Rightarrow> Inr x)"
| "py_float L _ = Inl TypeError"

section \<open>common.py: the window parser\<close>

record WindowUsage =
  utilization :: real
  resets_at :: pyval

text \<open>
  \<^verbatim>\<open>parse_window_percent(raw, key="utilization")\<close>. The two \<^verbatim>\<open>raw.get\<close> calls are outside
  the \<^verbatim>\<open>try\<close>; only \<^verbatim>\<open>float(util)\<close> is guarded.
\<close>

definition parse_window_percent :: "'o pylib \<Rightarrow> pyval \<Rightarrow> string \<Rightarrow> error + WindowUsage" where
  "parse_window_percent L raw key =
     (let raw' = py_or raw (PDict []) in
      case py_get raw' key PNone of
        Inl e \<Rightarrow> Inl e
      | Inr u \<Rightarrow>
          (let util = py_or u (PInt 0) in
           case py_get raw' ''resets_at'' PNone of
             Inl e \<Rightarrow> Inl e
           | Inr resets \<Rightarrow>
               (let util_f = (case py_float L util of Inl e \<Rightarrow> 0 | Inr x \<Rightarrow> x)
                in Inr \<lparr>utilization = util_f, resets_at = resets\<rparr>)))"

text \<open>\<^verbatim>\<open>parse_window_direct(raw)\<close>: the same with the keys of the other service.\<close>

definition parse_window_direct :: "'o pylib \<Rightarrow> pyval \<Rightarrow> error + WindowUsage" where
  "parse_window_direct L raw =
     (let raw' = py_or raw (PDict []) in
      case py_get raw' ''used_percent'' PNone of
        Inl e \<Rightarrow> Inl e
      | Inr u \<Rightarrow>
          (let used = py_or u (PInt 0) in
           case py_get raw' ''reset_at'' PNone of
             Inl e \<Rightarrow> Inl e
           | Inr reset_at \<Rightarrow>
               (let used_f = (case py_float L used of Inl e \<Rightarrow> 0 | Inr x \<Rightarrow> x)
                in Inr \<lparr>utilization = used_f, resets_at = reset_at\<rparr>)))"

text \<open>The declared input type of both parsers: a mapping or \<^verbatim>\<open>None\<close>.\<close>

fun is_mapping_or_none :: "pyval \<Rightarrow> bool" where
  "is_mapping_or_none PNone = True"
| "is_mapping_or_none (PDict kvs) = True"
| "is_mapping_or_none _ = False"

text \<open>The value the parser reads under a key: \<^verbatim>\<open>(raw or {}).get(key)\<close> for such an input.\<close>

fun raw_field :: "pyval \<Rightarrow> string \<Rightarrow> pyval" where
  "raw_field (PDict kvs) k = (case map_of kvs k of None \<Rightarrow> PNone | Some v \<Rightarrow> v)"
| "raw_field _ k = PNone"

text \<open>A utilization value is numeric when \<^verbatim>\<open>float\<close> accepts it.\<close>

definition numeric :: "'o pylib \<Rightarrow> pyval \<Rightarrow> bool" where
  "numeric L v = (case py_float L v of Inl e \<Rightarrow> False | Inr x \<Rightarrow> True)"

section \<open>common.py: the ETA formatter\<close>

text \<open>Decimal digits of a number, as \<^verbatim>\<open>str(n)\<close> writes them.\<close>

fun show_nat :: "nat \<Rightarrow> string" where
  "show_nat n = (if n < 10 then [''0123456789'' ! n]
                 else show_nat (n div 10) @ [''0123456789'' ! (n mod 10)])"

declare show_nat.simps [simp del]

definition show_int :: "int \<Rightarrow> string" where
  "show_int n = (if n < 0 then CHR ''-'' # show_nat (nat (- n)) else show_nat (nat n))"

text \<open>
  \<^verbatim>\<open>format(n, "02")\<close>, the \<^verbatim>\<open>{hours:02}\<close> of an f-string: zero padding to width 2,
  the sign counted in the width.
\<close>

definition fmt_02 :: "int \<Rightarrow> string" where
  "fmt_02 n = (if n < 0 then show_int n
               else if n < 10 then CHR ''0'' # show_int n else show_int n)"

text \<open>The two placeholders of \<^verbatim>\<open>format_eta\<close>; the prime and double prime are U+2032 and U+2033.\<close>

definition prime :: string where
  "prime = [CHR 0xE2, CHR 0x80, CHR 0xB2]"

definition dprime :: string where
  "dprime = [CHR 0xE2, CHR 0x80, CHR 0xB3]"

definition absent_placeholder :: string where
  "absent_placeholder = ''0'' @ prime @ ''00'' @ dprime"

definition error_placeholder :: string where
  "error_placeholder = ''??'' @ prime @ ''??'' @ dprime"

text \<open>Python's \<^verbatim>\<open>round(x)\<close> of a float: to the nearest integer, a tie to the even one.\<close>

definition py_round :: "real \<Rightarrow> int" where
  "py_round x =
     (let f = \<lfloor>x\<rfloor>; d = x - of_int f
      in if d < 1 / 2 then f else if 1 / 2 < d then f + 1 else if even f then f else f + 1)"

text \<open>
  \<^verbatim>\<open>datetime.fromtimestamp(t, tz=timezone.utc)\<close>: defined for the years 1 to 9999, for an
  \<^verbatim>\<open>int\<close> (a \<^verbatim>\<open>bool\<close> is one) or a \<^verbatim>\<open>float\<close>, which is rounded to the microsecond.
\<close>

definition in_datetime_range :: "int \<Rightarrow> bool" where
  "in_datetime_range us = (- 62135596800000000 \<le> us \<and> us \<le> 253402300799999999)"

fun fromtimestamp :: "pyval \<Rightarrow> error + datetime" where
  "fromtimestamp (PInt n) =
     (if in_datetime_range (n * 1000000) then Inr (Aware (n * 1000000)) else Inl ValueError)"
| "fromtimestamp (PBool b) = Inr (Aware (if b then 1000000 else 0))"
| "fromtimestamp (PFloat x) =
     (let us = py_round (x * 1000000)
      in if in_datetime_range us then Inr (Aware us) else Inl ValueError)"
| "fromtimestamp _ = Inl TypeError"

text \<open>\<^verbatim>\<open>reset_dt - now\<close>, in microseconds: an aware and a naive datetime do not subtract.\<close>

fun dt_sub :: "datetime \<Rightarrow> datetime \<Rightarrow> error + int" where
  "dt_sub (Aware a) (Aware b) = Inr (a - b)"
| "dt_sub (Naive a) (Naive b) = Inr (a - b)"
| "dt_sub _ _ = Inl TypeError"

text \<open>\<^verbatim>\<open>int(delta.total_seconds())\<close>: whole seconds, truncated towards zero.\<close>

definition total_seconds_int :: "int \<Rightarrow> int" where
  "total_seconds_int us = (if 0 \<le> us then us div 1000000 else - ((- us) div 1000000))"

text \<open>
  The body of the \<^verbatim>\<open>try\<close> that \<^verbatim>\<open>format_eta\<close> and \<^verbatim>\<open>print_waybar\<close> of
  \<^verbatim>\<open>claude.py\<close> share, statement for statement. First the reset is parsed
  (\<^verbatim>\<open>reset_dt\<close>): a string has a final \<^verbatim>\<open>Z\<close> replaced by \<^verbatim>\<open>+00:00\<close> and is read as
  ISO 8601, anything else is taken as epoch seconds.
\<close>

definition parse_reset :: "'o pylib \<Rightarrow> pyval \<Rightarrow> error + datetime" where
  "parse_reset L reset_at =
     (case reset_at of
        PStr s \<Rightarrow>
          (let s' = (if s \<noteq> [] \<and> last s = CHR ''Z'' then butlast s @ ''+00:00'' else s)
           in case fromisoformat L s' of None \<Rightarrow> Inl ValueError | Some dt \<Rightarrow> Inr dt)
      | _ \<Rightarrow> fromtimestamp reset_at)"

text \<open>
  Then the clock is read (\<open>now\<close>, microseconds since the epoch, in UTC) and subtracted:
  \<^verbatim>\<open>delta = reset_dt - now\<close>.
\<close>

definition reset_delta :: "'o pylib \<Rightarrow> int \<Rightarrow> pyval \<Rightarrow> error + int" where
  "reset_delta L now reset_at =
     (case parse_reset L reset_at of
        Inl e \<Rightarrow> Inl e
      | Inr reset_dt \<Rightarrow> dt_sub reset_dt (Aware now))"

definition format_eta :: "'o pylib \<Rightarrow> int \<Rightarrow> pyval \<Rightarrow> string" where
  "format_eta L now reset_at =
     (if \<not> truthy reset_at then absent_placeholder
      else case reset_delta L now reset_at of
        Inl e \<Rightarrow> error_placeholder
      | Inr delta \<Rightarrow>
          (let secs = total_seconds_int delta in
           if secs \<le> 0 then ''0m00s''
           else if secs \<ge> 86400 then
             (let days = secs div 86400; hours = (secs mod 86400) div 3600
              in show_int days @ ''d'' @ fmt_02 hours @ ''h'')
           else if secs \<ge> 3600 then
             (let hours = secs div 3600; mins = (secs mod 3600) div 60
              in show_int hours @ ''h'' @ fmt_02 mins @ ''m'')
           else
             (let mins = secs div 60; secs_rem = secs mod 60
              in show_int mins @ ''m'' @ fmt_02 secs_rem @ ''s'')))"

section \<open>common.py: the template engine\<close>

text \<open>Truth value and \<^verbatim>\<open>str()\<close> of a value of the data mapping.\<close>

fun fv_truthy :: "field_value \<Rightarrow> bool" where
  "fv_truthy (Text s) = (s \<noteq> [])"
| "fv_truthy (Number n) = (n \<noteq> 0)"

fun py_str :: "field_value \<Rightarrow> string" where
  "py_str (Text s) = s"
| "py_str (Number n) = show_int n"

subsection \<open>\<^verbatim>\<open>str.format(**data)\<close>\<close>

text \<open>
  Python's format strings, as \<^verbatim>\<open>str.format\<close> reads them when it is called with keyword
  arguments only. The string is cut, left to right, into literal text (\<^verbatim>\<open>{{\<close> and
  \<^verbatim>\<open>}}\<close> stand for one brace) and replacement fields
  \<^verbatim>\<open>{name!conversion:spec}\<close>; a brace that is neither is \<open>Malformed\<close>, where the
  call raises \<^verbatim>\<open>ValueError\<close>. Segments are rendered in order, so an error is raised
  only after every field before it has been rendered.
\<close>

datatype segment =
    Literal string
  | Replace string "char option" string
  | Malformed

text \<open>
  The field name runs to the first \<^verbatim>\<open>}\<close>, \<^verbatim>\<open>:\<close> or \<^verbatim>\<open>!\<close> outside square brackets; a
  \<^verbatim>\<open>{\<close> in it, or the end of the string, is an error. The flag says whether the scan
  is inside brackets. The result is the name, the character that ended it and the rest.
\<close>

fun scan_name :: "bool \<Rightarrow> string \<Rightarrow> (string \<times> char \<times> string) option" where
  "scan_name inb [] = None"
| "scan_name True (c # cs) =
     map_option (\<lambda>(n, t, r). (c # n, t, r)) (scan_name (c \<noteq> CHR '']'') cs)"
| "scan_name False (c # cs) =
     (if c = CHR ''{'' then None
      else if c = CHR ''['' then map_option (\<lambda>(n, t, r). (c # n, t, r)) (scan_name True cs)
      else if c = CHR ''}'' \<or> c = CHR '':'' \<or> c = CHR ''!'' then Some ([], c, cs)
      else map_option (\<lambda>(n, t, r). (c # n, t, r)) (scan_name False cs))"

text \<open>The format specification runs to the brace that closes the field; braces nest.\<close>

fun scan_spec :: "nat \<Rightarrow> string \<Rightarrow> (string \<times> string) option" where
  "scan_spec count [] = None"
| "scan_spec count (c # cs) =
     (if c = CHR ''{'' then map_option (\<lambda>(s, r). (c # s, r)) (scan_spec (Suc count) cs)
      else if c = CHR ''}'' then
        (if count = 1 then Some ([], cs)
         else map_option (\<lambda>(s, r). (c # s, r)) (scan_spec (count - 1) cs))
      else map_option (\<lambda>(s, r). (c # s, r)) (scan_spec count cs))"

text \<open>One replacement field, read after its opening brace; \<open>None\<close> is \<^verbatim>\<open>ValueError\<close>.\<close>

definition parse_field :: "string \<Rightarrow> (segment \<times> string) option" where
  "parse_field s =
     (case scan_name False s of
        None \<Rightarrow> None
      | Some (name, t, r) \<Rightarrow>
          if t = CHR ''}'' then Some (Replace name None [], r)
          else if t = CHR ''!'' then
            (case r of
               [] \<Rightarrow> None
             | conv # r1 \<Rightarrow>
                 (case r1 of
                    [] \<Rightarrow> None
                  | c # r2 \<Rightarrow>
                      if c = CHR ''}'' then Some (Replace name (Some conv) [], r2)
                      else if c = CHR '':'' then
                        map_option (\<lambda>(sp, r3). (Replace name (Some conv) sp, r3)) (scan_spec 1 r2)
                      else None))
          else map_option (\<lambda>(sp, r3). (Replace name None sp, r3)) (scan_spec 1 r))"

lemma scan_name_shorter: "scan_name b s = Some (n, t, r) \<Longrightarrow> length r < length s"
  by (induction b s arbitrary: n rule: scan_name.induct) (auto split: if_splits)

lemma scan_spec_shorter: "scan_spec k s = Some (sp, r) \<Longrightarrow> length r < length s"
  by (induction k s arbitrary: sp rule: scan_spec.induct) (auto split: if_splits)

lemma parse_field_shorter: "parse_field s = Some (seg, r) \<Longrightarrow> length r < length s"
  by (auto simp: parse_field_def split: option.splits if_splits list.splits
      dest!: scan_name_shorter scan_spec_shorter)

definition is_brace :: "char \<Rightarrow> bool" where
  "is_brace c = (c = CHR ''{'' \<or> c = CHR ''}'')"

function markup :: "string \<Rightarrow> segment list" where
  "markup s =
     (if s = [] then []
      else
        (let lit = takeWhile (\<lambda>c. \<not> is_brace c) s; r = dropWhile (\<lambda>c. \<not> is_brace c) s in
         case r of
           [] \<Rightarrow> [Literal lit]
         | c # r1 \<Rightarrow>
             (case r1 of
                [] \<Rightarrow> [Malformed]
              | c1 # r2 \<Rightarrow>
                  if c1 = c then Literal (lit @ [c]) # markup r2
                  else if c = CHR ''}'' then [Malformed]
                  else (case parse_field r1 of
                          None \<Rightarrow> [Malformed]
                        | Some (seg, r3) \<Rightarrow> Literal lit # seg # markup r3))))"
  by pat_completeness auto
termination
proof (relation "measure length", goal_cases)
  case 1
  show ?case by simp
next
  case (2 s lit r c r1 c1 r2)
  have "length r \<le> length s"
    unfolding \<open>r = dropWhile (\<lambda>c. \<not> is_brace c) s\<close> by (rule length_dropWhile_le)
  moreover have "r = c # c1 # r2"
    using 2 by simp
  ultimately show ?case by simp
next
  case (3 s lit r c r1 c1 r2 x seg r3)
  have "length r \<le> length s"
    unfolding \<open>r = dropWhile (\<lambda>c. \<not> is_brace c) s\<close> by (rule length_dropWhile_le)
  moreover have "r = c # r1"
    using 3 by simp
  moreover have "length r3 < length r1"
    using 3 parse_field_shorter [of r1 seg r3] by simp
  ultimately show ?case by simp
qed

declare markup.simps [simp del]

text \<open>
  Rendering one field. The name up to the first \<^verbatim>\<open>.\<close> or \<^verbatim>\<open>[\<close> is looked up: an empty
  or numeric name indexes the positional arguments, of which there are none
  (\<^verbatim>\<open>IndexError\<close>, or \<^verbatim>\<open>ValueError\<close> for a number beyond the machine's index range); any
  other name is a key of the mapping, \<^verbatim>\<open>KeyError\<close> when absent. A field that is only a
  name is replaced by \<^verbatim>\<open>str(value)\<close>. For the rest the library resolves attributes,
  indices and the conversion, then a specification that contains a field is itself
  expanded (\<open>expand\<close>), and the library formats the object.
\<close>

definition is_digit :: "char \<Rightarrow> bool" where
  "is_digit c = (c \<in> set ''0123456789'')"

definition decimal_value :: "string \<Rightarrow> int" where
  "decimal_value ds = foldl (\<lambda>a c. 10 * a + (of_char c - 48)) 0 ds"

definition field_first :: "string \<Rightarrow> string" where
  "field_first name = takeWhile (\<lambda>c. c \<noteq> CHR ''.'' \<and> c \<noteq> CHR ''['') name"

definition field_rest :: "string \<Rightarrow> string" where
  "field_rest name = dropWhile (\<lambda>c. c \<noteq> CHR ''.'' \<and> c \<noteq> CHR ''['') name"

definition render_field ::
  "'o pylib \<Rightarrow> fields \<Rightarrow> (string \<Rightarrow> error + string) \<Rightarrow> string \<Rightarrow> char option \<Rightarrow> string
     \<Rightarrow> error + string" where
  "render_field L data expand name conv spec =
     (let first = field_first name; rest = field_rest name in
      if first = [] then Inl IndexError
      else if list_all is_digit first then
        (if decimal_value first > 9223372036854775807 then Inl ValueError else Inl IndexError)
      else case data first of
        None \<Rightarrow> Inl (KeyError first)
      | Some v \<Rightarrow>
          if rest = [] \<and> conv = None \<and> spec = [] then Inr (py_str v)
          else case resolve_field L v rest conv of
            Inl e \<Rightarrow> Inl e
          | Inr ob \<Rightarrow>
              (case (if CHR ''{'' \<in> set spec then expand spec else Inr spec) of
                 Inl e \<Rightarrow> Inl e
               | Inr sp \<Rightarrow> format_value L ob sp))"

fun render_all ::
  "'o pylib \<Rightarrow> fields \<Rightarrow> (string \<Rightarrow> error + string) \<Rightarrow> segment list \<Rightarrow> error + string" where
  "render_all L data expand [] = Inr []"
| "render_all L data expand (Literal t # segs) =
     (case render_all L data expand segs of Inl e \<Rightarrow> Inl e | Inr r \<Rightarrow> Inr (t @ r))"
| "render_all L data expand (Replace name conv spec # segs) =
     (case render_field L data expand name conv spec of
        Inl e \<Rightarrow> Inl e
      | Inr t \<Rightarrow>
          (case render_all L data expand segs of Inl e \<Rightarrow> Inl e | Inr r \<Rightarrow> Inr (t @ r)))"
| "render_all L data expand (Malformed # segs) = Inl ValueError"

text \<open>
  The recursion depth is 2: a specification nested inside a specification is expanded
  at depth 0, which raises \<^verbatim>\<open>ValueError\<close>.
\<close>

primrec build_string :: "nat \<Rightarrow> 'o pylib \<Rightarrow> fields \<Rightarrow> string \<Rightarrow> error + string" where
  "build_string 0 L data s = Inl ValueError"
| "build_string (Suc depth) L data s = render_all L data (build_string depth L data) (markup s)"

definition str_format :: "'o pylib \<Rightarrow> string \<Rightarrow> fields \<Rightarrow> error + string" where
  "str_format L s data = build_string (Suc (Suc 0)) L data s"

subsection \<open>The two conditional passes and \<^verbatim>\<open>format_output\<close>\<close>

text \<open>\<^verbatim>\<open>v.strip()\<close> and \<^verbatim>\<open>s.split('&')\<close>.\<close>

definition is_space :: "char \<Rightarrow> bool" where
  "is_space c = (c \<in> set [CHR 0x20, CHR 0x09, CHR 0x0A, CHR 0x0B, CHR 0x0C, CHR 0x0D,
                            CHR 0x1C, CHR 0x1D, CHR 0x1E, CHR 0x1F])"

definition strip :: "string \<Rightarrow> string" where
  "strip s = rev (dropWhile is_space (rev (dropWhile is_space s)))"

fun split_on :: "char \<Rightarrow> string \<Rightarrow> string list" where
  "split_on sep [] = [[]]"
| "split_on sep (c # cs) =
     (if c = sep then [] # split_on sep cs
      else (case split_on sep cs of [] \<Rightarrow> [[c]] | x # xs \<Rightarrow> (c # x) # xs))"

text \<open>The class \<^verbatim>\<open>\w\<close>.\<close>

definition is_word :: "char \<Rightarrow> bool" where
  "is_word c = (c \<in> set ''abcdefghijklmnopqrstuvwxyzABCDEFGHIJKLMNOPQRSTUVWXYZ0123456789_'')"

text \<open>
  \<^verbatim>\<open>(.*?)\<close> followed by a literal closing tag: the shortest run of characters other than
  the newline after which the tag stands. The result is the run and what follows the tag.
\<close>

fun lazy_until :: "string \<Rightarrow> string \<Rightarrow> (string \<times> string) option" where
  "lazy_until close [] = (if close = [] then Some ([], []) else None)"
| "lazy_until close (c # cs) =
     (if take (length close) (c # cs) = close then Some ([], drop (length close) (c # cs))
      else if c = CHR 0x0A then None
      else map_option (\<lambda>(content, rest). (c # content, rest)) (lazy_until close cs))"

text \<open>
  A match of \<^verbatim>\<open>\{\?([^}]+&[^}]+)\}(.*?)\{/\}\<close> at the start of \<open>s\<close>: group 1 is all the
  text between \<^verbatim>\<open>{?\<close> and the next \<^verbatim>\<open>}\<close> and must have an \<^verbatim>\<open>&\<close> that is neither its
  first nor its last character; group 2 is the content. The result is the two groups
  and the text after the match.
\<close>

definition match_multi :: "string \<Rightarrow> (string \<times> string \<times> string) option" where
  "match_multi s =
     (case s of
        c0 # c1 # t \<Rightarrow>
          if c0 = CHR ''{'' \<and> c1 = CHR ''?'' then
            (let h = takeWhile (\<lambda>c. c \<noteq> CHR ''}'') t; r = dropWhile (\<lambda>c. c \<noteq> CHR ''}'') t in
             if r = [] \<or> CHR ''&'' \<notin> set (butlast (tl h)) then None
             else map_option (\<lambda>(content, rest). (h, content, rest)) (lazy_until ''{/}'' (tl r)))
          else None
      | _ \<Rightarrow> None)"

text \<open>
  A match of \<^verbatim>\<open>\{\?(\w+)\}(.*?)\{/\1\}\<close> at the start of \<open>s\<close>: group 1 is the longest run
  of word characters after \<^verbatim>\<open>{?\<close>, which a \<^verbatim>\<open>}\<close> must follow; the closing tag repeats it.
\<close>

definition match_single :: "string \<Rightarrow> (string \<times> string \<times> string) option" where
  "match_single s =
     (case s of
        c0 # c1 # t \<Rightarrow>
          if c0 = CHR ''{'' \<and> c1 = CHR ''?'' then
            (let w = takeWhile is_word t; r = dropWhile is_word t in
             if w = [] \<or> r = [] \<or> hd r \<noteq> CHR ''}'' then None
             else map_option (\<lambda>(content, rest). (w, content, rest))
                    (lazy_until (''{/'' @ w @ ''}'') (tl r)))
          else None
      | _ \<Rightarrow> None)"

text \<open>
  \<^verbatim>\<open>data.get(name, "")\<close>, and the test both callbacks apply to a value:
  \<^verbatim>\<open>value and value != "Not started"\<close>.
\<close>

definition get_or_empty :: "fields \<Rightarrow> string \<Rightarrow> field_value" where
  "get_or_empty data k = (case data k of None \<Rightarrow> Text [] | Some v \<Rightarrow> v)"

definition shown :: "field_value \<Rightarrow> bool" where
  "shown v = (fv_truthy v \<and> v \<noteq> Text ''Not started'')"

text \<open>The two callbacks, applied to the groups of a match.\<close>

definition replace_multi_conditional ::
  "'o pylib \<Rightarrow> fields \<Rightarrow> string \<Rightarrow> string \<Rightarrow> error + string" where
  "replace_multi_conditional L data g1 g2 =
     (let var_names = split_on (CHR ''&'') g1; content = g2;
          all_valid = list_all (\<lambda>v. shown (get_or_empty data (strip v))) var_names
      in if all_valid then str_format L content data else Inr [])"

definition replace_conditional ::
  "'o pylib \<Rightarrow> fields \<Rightarrow> string \<Rightarrow> string \<Rightarrow> error + string" where
  "replace_conditional L data g1 g2 =
     (let var_name = g1; content = g2; val = get_or_empty data var_name
      in if shown val then str_format L content data else Inr [])"

text \<open>A match is a prefix of the text; what follows it is shorter, so \<^verbatim>\<open>re.sub\<close> terminates.\<close>

lemma lazy_until_split: "lazy_until close s = Some (content, rest) \<Longrightarrow> s = content @ close @ rest"
proof (induction close s arbitrary: content rule: lazy_until.induct)
  case (1 close)
  then show ?case by (simp split: if_splits)
next
  case (2 close c cs)
  show ?case
  proof (cases "take (length close) (c # cs) = close")
    case True
    with 2 have "content = []" "rest = drop (length close) (c # cs)"
      by simp_all
    with True show ?thesis
      by (metis append_Nil append_take_drop_id)
  next
    case False
    with 2 show ?thesis
      by (auto split: if_splits)
  qed
qed

lemma match_multi_split:
  "match_multi s = Some (h, content, rest) \<Longrightarrow> s = ''{?'' @ h @ ''}'' @ content @ ''{/}'' @ rest"
proof -
  assume m: "match_multi s = Some (h, content, rest)"
  then obtain t where s: "s = CHR ''{'' # CHR ''?'' # t"
    by (auto simp: match_multi_def split: list.splits if_splits)
  let ?r = "dropWhile (\<lambda>c. c \<noteq> CHR ''}'') t"
  from m s have h: "h = takeWhile (\<lambda>c. c \<noteq> CHR ''}'') t" and r: "?r \<noteq> []"
    and l: "lazy_until ''{/}'' (tl ?r) = Some (content, rest)"
    by (auto simp: match_multi_def Let_def split: if_splits)
  from r have "hd ?r = CHR ''}''"
    using hd_dropWhile [of "\<lambda>c. c \<noteq> CHR ''}''" t] by simp
  with r have "?r = CHR ''}'' # tl ?r"
    by (cases ?r) simp_all
  moreover have "t = h @ ?r"
    by (simp add: h)
  moreover have "tl ?r = content @ ''{/}'' @ rest"
    using lazy_until_split [OF l] .
  ultimately show ?thesis
    using s by simp
qed

lemma match_single_split:
  "match_single s = Some (w, content, rest) \<Longrightarrow>
     s = ''{?'' @ w @ ''}'' @ content @ (''{/'' @ w @ ''}'') @ rest"
proof -
  assume m: "match_single s = Some (w, content, rest)"
  then obtain t where s: "s = CHR ''{'' # CHR ''?'' # t"
    by (auto simp: match_single_def split: list.splits if_splits)
  let ?r = "dropWhile is_word t"
  from m s have w: "w = takeWhile is_word t" and r: "?r \<noteq> []" and hd: "hd ?r = CHR ''}''"
    and l: "lazy_until (''{/'' @ w @ ''}'') (tl ?r) = Some (content, rest)"
    by (auto simp: match_single_def Let_def split: if_splits)
  from r hd have "?r = CHR ''}'' # tl ?r"
    by (cases ?r) simp_all
  moreover have "t = w @ ?r"
    by (simp add: w)
  moreover have "tl ?r = content @ (''{/'' @ w @ ''}'') @ rest"
    using lazy_until_split [OF l] .
  ultimately show ?thesis
    using s by simp
qed

lemma match_multi_shorter: "match_multi s = Some (g1, g2, rest) \<Longrightarrow> length rest < length s"
  by (drule match_multi_split) simp

text \<open>
  \<^verbatim>\<open>re.sub(pattern, callback, text)\<close>: at each position, left to right, a match is
  replaced by the callback's result and the scan resumes after it; otherwise the
  character is copied. An exception in a callback ends the call.
\<close>

function sub_multi :: "'o pylib \<Rightarrow> fields \<Rightarrow> string \<Rightarrow> error + string" where
  "sub_multi L data [] = Inr []"
| "sub_multi L data (c # cs) =
     (case match_multi (c # cs) of
        Some (g1, g2, rest) \<Rightarrow>
          (case replace_multi_conditional L data g1 g2 of
             Inl e \<Rightarrow> Inl e
           | Inr repl \<Rightarrow>
               (case sub_multi L data rest of Inl e \<Rightarrow> Inl e | Inr out \<Rightarrow> Inr (repl @ out)))
      | None \<Rightarrow>
          (case sub_multi L data cs of Inl e \<Rightarrow> Inl e | Inr out \<Rightarrow> Inr (c # out)))"
  by pat_completeness auto
termination
proof (relation "measure (\<lambda>(L, data, s). length s)", goal_cases)
  case 1
  show ?case by simp
next
  case 2
  then show ?case using match_multi_shorter by fastforce
next
  case 3
  then show ?case using match_multi_shorter by fastforce
qed

lemma match_single_shorter: "match_single s = Some (g1, g2, rest) \<Longrightarrow> length rest < length s"
  by (drule match_single_split) simp

function sub_single :: "'o pylib \<Rightarrow> fields \<Rightarrow> string \<Rightarrow> error + string" where
  "sub_single L data [] = Inr []"
| "sub_single L data (c # cs) =
     (case match_single (c # cs) of
        Some (g1, g2, rest) \<Rightarrow>
          (case replace_conditional L data g1 g2 of
             Inl e \<Rightarrow> Inl e
           | Inr repl \<Rightarrow>
               (case sub_single L data rest of Inl e \<Rightarrow> Inl e | Inr out \<Rightarrow> Inr (repl @ out)))
      | None \<Rightarrow>
          (case sub_single L data cs of Inl e \<Rightarrow> Inl e | Inr out \<Rightarrow> Inr (c # out)))"
  by pat_completeness auto
termination
proof (relation "measure (\<lambda>(L, data, s). length s)", goal_cases)
  case 1
  show ?case by simp
next
  case 2
  then show ?case using match_single_shorter by fastforce
next
  case 3
  then show ?case using match_single_shorter by fastforce
qed

definition format_output :: "'o pylib \<Rightarrow> string \<Rightarrow> fields \<Rightarrow> error + string" where
  "format_output L format_string data =
     (case sub_multi L data format_string of
        Inl e \<Rightarrow> Inl e
      | Inr result \<Rightarrow>
          (case sub_single L data result of
             Inl e \<Rightarrow> Inl e
           | Inr result' \<Rightarrow> str_format L result' data))"

text \<open>
  For statements about plain templates: literal text without braces, and replacement
  fields that are only a name. A plain name is not empty, is not a number and has none
  of the characters that end a name, open an index or an attribute, or mark a
  conditional block.
\<close>

definition brace_free :: "string \<Rightarrow> bool" where
  "brace_free t = (\<forall>c\<in>set t. \<not> is_brace c)"

definition plain_name :: "string \<Rightarrow> bool" where
  "plain_name n = (n \<noteq> [] \<and> (\<forall>c\<in>set n. c \<notin> set ''{}[]:!.?'') \<and> \<not> list_all is_digit n)"

text \<open>
  The format string \<^verbatim>\<open>t1{n1}t2{n2}...tail\<close>, and the same text with the value of each
  name in place of its field.
\<close>

definition template :: "(string \<times> string) list \<Rightarrow> string \<Rightarrow> string" where
  "template ps tail = concat (map (\<lambda>(t, n). t @ ''{'' @ n @ ''}'') ps) @ tail"

definition filled :: "fields \<Rightarrow> (string \<times> string) list \<Rightarrow> string \<Rightarrow> string" where
  "filled data ps tail =
     concat (map (\<lambda>(t, n). t @ (case data n of None \<Rightarrow> [] | Some v \<Rightarrow> py_str v)) ps) @ tail"

section \<open>The window classifier and the status-bar output\<close>

text \<open>
  \<^verbatim>\<open>print_waybar\<close> of both front ends works in the same steps: parse the two windows,
  format their resets, choose the active window, round its percentage, derive the
  status, build the data mapping, expand the text and the tooltip, pick the class and
  print the output object as JSON. The steps are separate definitions here, in the
  order of the source, and \<open>claude_print_waybar\<close> and \<open>codex_print_waybar\<close> chain them.
\<close>

text \<open>\<^verbatim>\<open>format_eta(w.resets_at) if w.resets_at else "Not started"\<close>\<close>

definition reset_str :: "'o pylib \<Rightarrow> int \<Rightarrow> WindowUsage \<Rightarrow> string" where
  "reset_str L now w =
     (if truthy (resets_at w) then format_eta L now (resets_at w) else ''Not started'')"

text \<open>\<^verbatim>\<open>target.utilization == 0 and target.resets_at is None\<close>\<close>

definition window_not_started :: "WindowUsage \<Rightarrow> bool" where
  "window_not_started w = (utilization w = 0 \<and> resets_at w = PNone)"

text \<open>The status, from the long window and the two flags; the same lines in both files.\<close>

definition derive_status :: "WindowUsage \<Rightarrow> bool \<Rightarrow> bool \<Rightarrow> string" where
  "derive_status long is_unused not_started =
     (if utilization long \<ge> 100 then ''Pause''
      else if is_unused \<or> not_started then ''Ready''
      else '''')"

text \<open>The severity: \<^verbatim>\<open>low\<close> below 50, \<^verbatim>\<open>mid\<close> below 80, \<^verbatim>\<open>high\<close> otherwise.\<close>

definition claude_cls :: "int \<Rightarrow> string" where
  "claude_cls pct =
     (if pct < 50 then ''claude-low'' else if pct < 80 then ''claude-mid'' else ''claude-high'')"

definition codex_cls :: "int \<Rightarrow> string" where
  "codex_cls pct =
     (if pct < 50 then ''codex-low'' else if pct < 80 then ''codex-mid'' else ''codex-high'')"

text \<open>The icons are single code points of a private-use plane, here in UTF-8.\<close>

definition claude_icon_plain :: string where
  "claude_icon_plain = [CHR 0xF3, CHR 0xB0, CHR 0x9C, CHR 0xA1]"

definition codex_icon_plain :: string where
  "codex_icon_plain = [CHR 0xF3, CHR 0xB0, CHR 0xAC, CHR 0xAB]"

definition time_icon_plain :: string where
  "time_icon_plain = [CHR 0xF3, CHR 0xB0, CHR 0x94, CHR 0x9A]"

definition claude_icon_styled :: string where
  "claude_icon_styled = ''<span foreground='#DE7356' size='large'>'' @ claude_icon_plain @ ''</span>''"

definition claude_time_icon_styled :: string where
  "claude_time_icon_styled = ''<span foreground='#DE7356' size='large'>'' @ time_icon_plain @ ''</span>''"

definition codex_icon_styled :: string where
  "codex_icon_styled = ''<span foreground='#74AA9C' size='large'>'' @ codex_icon_plain @ ''</span>''"

definition codex_time_icon_styled :: string where
  "codex_time_icon_styled = ''<span foreground='#74AA9C' size='large'>'' @ time_icon_plain @ ''</span>''"

text \<open>The rule of the default tooltip: 24 times U+2501.\<close>

definition tooltip_rule :: string where
  "tooltip_rule = concat (replicate 24 [CHR 0xE2, CHR 0x94, CHR 0x81])"

text \<open>
  The default tooltip, with the two utilizations formatted \<^verbatim>\<open>>3.0f\<close>, and the default
  text: the icon with the status, or with the percentage and the reset when the status
  is empty.
\<close>

definition default_tooltip :: "'o pylib \<Rightarrow> WindowUsage \<Rightarrow> WindowUsage \<Rightarrow> string \<Rightarrow> string \<Rightarrow> string" where
  "default_tooltip L short long short_reset long_reset =
     ''Window     Used    Reset\<newline>'' @
     tooltip_rule @ ''\<newline>'' @
     ''5-Hour     '' @ format_float L (utilization short) ''>3.0f'' @ ''%    '' @ short_reset @ ''\<newline>'' @
     ''7-Day      '' @ format_float L (utilization long) ''>3.0f'' @ ''%    '' @ long_reset @ ''\<newline>'' @
     ''\<newline>'' @
     ''Click to Refresh''"

definition default_text :: "string \<Rightarrow> string \<Rightarrow> string \<Rightarrow> int \<Rightarrow> string \<Rightarrow> string" where
  "default_text icon time_icon st pct reset =
     (if st = ''Pause'' then icon @ '' Pause''
      else if st = ''Ready'' then icon @ '' Ready''
      else icon @ '' '' @ show_int pct @ ''% '' @ time_icon @ '' '' @ reset)"

subsection \<open>\<^verbatim>\<open>json.dumps\<close> of the output object\<close>

text \<open>
  \<^verbatim>\<open>json.dumps\<close> with its defaults (ASCII only, no indentation). A string is written
  between double quotes; the quote, the backslash and the control characters are
  escaped, printable ASCII stands for itself and every other code point, decoded from
  its UTF-8 bytes, is written \<^verbatim>\<open>\uXXXX\<close>, as a surrogate pair beyond the basic plane.
\<close>

definition hex4 :: "nat \<Rightarrow> string" where
  "hex4 n = map (\<lambda>d. ''0123456789abcdef'' ! d)
              [n div 4096 mod 16, n div 256 mod 16, n div 16 mod 16, n mod 16]"

definition u_escape :: "nat \<Rightarrow> string" where
  "u_escape cp =
     (if cp \<ge> 65536 then
        (let v = cp - 65536
         in [CHR 0x5C, CHR ''u''] @ hex4 (55296 + v div 1024)
            @ [CHR 0x5C, CHR ''u''] @ hex4 (56320 + v mod 1024))
      else [CHR 0x5C, CHR ''u''] @ hex4 cp)"

definition escape_ascii :: "char \<Rightarrow> string" where
  "escape_ascii c =
     (if c = CHR 0x22 then [CHR 0x5C, CHR 0x22]
      else if c = CHR 0x5C then [CHR 0x5C, CHR 0x5C]
      else if c = CHR 0x0A then [CHR 0x5C, CHR ''n'']
      else if c = CHR 0x0D then [CHR 0x5C, CHR ''r'']
      else if c = CHR 0x09 then [CHR 0x5C, CHR ''t'']
      else if c = CHR 0x08 then [CHR 0x5C, CHR ''b'']
      else if c = CHR 0x0C then [CHR 0x5C, CHR ''f'']
      else if (of_char c :: nat) < 32 \<or> (of_char c :: nat) > 126 then u_escape (of_char c)
      else [c])"

fun json_escape :: "string \<Rightarrow> string" where
  "json_escape [] = []"
| "json_escape [b0] = escape_ascii b0"
| "json_escape (b0 # b1 # bs) =
     (let n0 = (of_char b0 :: nat); n1 = (of_char b1 :: nat) in
      if 192 \<le> n0 \<and> n0 < 224 then u_escape (n0 mod 32 * 64 + n1 mod 64) @ json_escape bs
      else if 224 \<le> n0 \<and> n0 < 240 then
        (case bs of
           b2 # bs2 \<Rightarrow>
             u_escape (n0 mod 16 * 4096 + n1 mod 64 * 64 + of_char b2 mod 64) @ json_escape bs2
         | [] \<Rightarrow> escape_ascii b0 @ json_escape (b1 # bs))
      else if 240 \<le> n0 then
        (case bs of
           b2 # b3 # bs3 \<Rightarrow>
             u_escape (n0 mod 8 * 262144 + n1 mod 64 * 4096 + of_char b2 mod 64 * 64
                       + of_char b3 mod 64) @ json_escape bs3
         | _ \<Rightarrow> escape_ascii b0 @ json_escape (b1 # bs))
      else escape_ascii b0 @ json_escape (b1 # bs))"

definition json_str :: "string \<Rightarrow> string" where
  "json_str s = [CHR 0x22] @ json_escape s @ [CHR 0x22]"

fun json_members :: "(string \<times> string) list \<Rightarrow> string" where
  "json_members [] = []"
| "json_members [(k, v)] = json_str k @ '': '' @ v"
| "json_members ((k, v) # kvs) = json_str k @ '': '' @ v @ '', '' @ json_members kvs"

definition json_object :: "(string \<times> string) list \<Rightarrow> string" where
  "json_object kvs = ''{'' @ json_members kvs @ ''}''"

text \<open>The output object, and the line \<^verbatim>\<open>print(json.dumps(output))\<close> writes.\<close>

record waybar_output =
  out_text :: string
  out_tooltip :: string
  out_class :: string
  out_alt :: string
  out_percentage :: int

definition dumps_output :: "waybar_output \<Rightarrow> string" where
  "dumps_output ob =
     json_object [(''text'', json_str (out_text ob)), (''tooltip'', json_str (out_tooltip ob)),
                  (''class'', json_str (out_class ob)), (''alt'', json_str (out_alt ob)),
                  (''percentage'', show_int (out_percentage ob))]"

text \<open>
  \<^verbatim>\<open>format_output(fmt, data) if fmt else default\<close>: a format that is \<^verbatim>\<open>None\<close> or empty
  gives the default.
\<close>

definition render_or_default ::
  "'o pylib \<Rightarrow> string option \<Rightarrow> fields \<Rightarrow> string \<Rightarrow> error + string" where
  "render_or_default L fmt data dflt =
     (case fmt of
        None \<Rightarrow> Inr dflt
      | Some f \<Rightarrow> if f = [] then Inr dflt else format_output L f data)"

subsection \<open>claude.py\<close>

text \<open>
  The active window, its label and its nominal length in seconds. The source also
  assigns \<^verbatim>\<open>target_raw\<close> in each branch and never reads it.
\<close>

record claude_choice =
  target :: WindowUsage
  win_name :: string
  window_length :: int

definition claude_select :: "bool \<Rightarrow> WindowUsage \<Rightarrow> WindowUsage \<Rightarrow> claude_choice" where
  "claude_select show5h fh sd =
     (if show5h then \<lparr>target = fh, win_name = ''5h'', window_length = 18000\<rparr>
      else if utilization sd \<ge> 100 then \<lparr>target = sd, win_name = ''7d'', window_length = 604800\<rparr>
      else if utilization sd > 80 then \<lparr>target = sd, win_name = ''7d'', window_length = 604800\<rparr>
      else \<lparr>target = fh, win_name = ''5h'', window_length = 18000\<rparr>)"

text \<open>
  The unused test: only for utilization 0 and a truthy reset; the whole computation is
  inside \<^verbatim>\<open>try ... except Exception: pass\<close>, which leaves the flag \<^verbatim>\<open>False\<close>.
\<close>

definition claude_is_unused :: "'o pylib \<Rightarrow> int \<Rightarrow> WindowUsage \<Rightarrow> int \<Rightarrow> bool" where
  "claude_is_unused L now w len =
     (if utilization w = 0 \<and> truthy (resets_at w) then
        (case reset_delta L now (resets_at w) of
           Inl e \<Rightarrow> False
         | Inr delta \<Rightarrow> (let reset_after = total_seconds_int delta in reset_after \<ge> len - 1))
      else False)"

text \<open>
  The readings of the clock, in the order \<^verbatim>\<open>print_waybar\<close> makes them: for the reset of
  the short window, for that of the long window, in the unused test, and for the reset
  of the active window.
\<close>

record clock =
  t_short :: int
  t_long :: int
  t_unused :: int
  t_active :: int

text \<open>What \<^verbatim>\<open>print_waybar\<close> has computed when it builds the output object.\<close>

record classified =
  c_alt :: string
  c_pct :: int
  c_status :: string
  c_reset :: string
  c_data :: "(string \<times> field_value) list"

definition claude_classify ::
  "'o pylib \<Rightarrow> clock \<Rightarrow> WindowUsage \<Rightarrow> WindowUsage \<Rightarrow> bool \<Rightarrow> classified" where
  "claude_classify L clk fh sd show5h =
     (let fh_reset_str = reset_str L (t_short clk) fh;
          sd_reset_str = reset_str L (t_long clk) sd;
          ch = claude_select show5h fh sd;
          pct = py_round (utilization (target ch));
          not_started = window_not_started (target ch);
          is_unused = claude_is_unused L (t_unused clk) (target ch) (window_length ch);
          st = derive_status sd is_unused not_started;
          reset = reset_str L (t_active clk) (target ch)
      in \<lparr>c_alt = win_name ch, c_pct = pct, c_status = st, c_reset = reset,
          c_data =
            [(''5h_pct'', Number (py_round (utilization fh))),
             (''7d_pct'', Number (py_round (utilization sd))),
             (''5h_reset'', Text fh_reset_str),
             (''7d_reset'', Text sd_reset_str),
             (''icon'', Text claude_icon_styled),
             (''icon_plain'', Text claude_icon_plain),
             (''time_icon'', Text claude_time_icon_styled),
             (''time_icon_plain'', Text time_icon_plain),
             (''status'', Text st),
             (''pct'', Number pct),
             (''reset'', Text reset),
             (''win'', Text (win_name ch))]\<rparr>)"

text \<open>Text, tooltip and class; a custom format that fails to render ends the call.\<close>

definition claude_output ::
  "'o pylib \<Rightarrow> clock \<Rightarrow> WindowUsage \<Rightarrow> WindowUsage \<Rightarrow> string option \<Rightarrow> string option \<Rightarrow> bool
     \<Rightarrow> error + waybar_output" where
  "claude_output L clk fh sd format_str tooltip_format show5h =
     (let c = claude_classify L clk fh sd show5h; data = map_of (c_data c) in
      case render_or_default L format_str data
             (default_text claude_icon_styled claude_time_icon_styled
                (c_status c) (c_pct c) (c_reset c)) of
        Inl e \<Rightarrow> Inl e
      | Inr txt \<Rightarrow>
          (case render_or_default L tooltip_format data
                  (default_tooltip L fh sd (reset_str L (t_short clk) fh)
                     (reset_str L (t_long clk) sd)) of
             Inl e \<Rightarrow> Inl e
           | Inr tip \<Rightarrow>
               Inr \<lparr>out_text = txt, out_tooltip = tip, out_class = claude_cls (c_pct c),
                    out_alt = c_alt c,
                    out_percentage = (if show5h then py_round (utilization fh) else c_pct c)\<rparr>))"

text \<open>\<^verbatim>\<open>print_waybar(usage, format_str, tooltip_format, show_5h)\<close>: the line it prints.\<close>

definition claude_print_waybar ::
  "'o pylib \<Rightarrow> clock \<Rightarrow> pyval \<Rightarrow> string option \<Rightarrow> string option \<Rightarrow> bool \<Rightarrow> error + string" where
  "claude_print_waybar L clk usage format_str tooltip_format show5h =
     (case py_get usage ''five_hour'' PNone of
        Inl e \<Rightarrow> Inl e
      | Inr r5 \<Rightarrow>
          (case parse_window_percent L r5 ''utilization'' of
             Inl e \<Rightarrow> Inl e
           | Inr fh \<Rightarrow>
               (case py_get usage ''seven_day'' PNone of
                  Inl e \<Rightarrow> Inl e
                | Inr r7 \<Rightarrow>
                    (case parse_window_percent L r7 ''utilization'' of
                       Inl e \<Rightarrow> Inl e
                     | Inr sd \<Rightarrow>
                         (case claude_output L clk fh sd format_str tooltip_format show5h of
                            Inl e \<Rightarrow> Inl e
                          | Inr ob \<Rightarrow> Inr (dumps_output ob))))))"

subsection \<open>codex.py\<close>

text \<open>The active window, the raw mapping it was parsed from, and its label.\<close>

record codex_choice =
  target_win :: WindowUsage
  target_raw :: pyval
  win_type :: string

definition codex_select ::
  "bool \<Rightarrow> WindowUsage \<Rightarrow> WindowUsage \<Rightarrow> pyval \<Rightarrow> pyval \<Rightarrow> codex_choice" where
  "codex_select show5h p_win s_win p_raw s_raw =
     (if show5h then \<lparr>target_win = p_win, target_raw = p_raw, win_type = ''Primary''\<rparr>
      else if utilization s_win \<ge> 100 then
        \<lparr>target_win = s_win, target_raw = s_raw, win_type = ''Secondary''\<rparr>
      else if utilization s_win > 80 then
        \<lparr>target_win = s_win, target_raw = s_raw, win_type = ''Secondary''\<rparr>
      else \<lparr>target_win = p_win, target_raw = p_raw, win_type = ''Primary''\<rparr>)"

text \<open>
  Numbers as Python compares them: \<^verbatim>\<open>x == 0\<close> holds for a zero \<^verbatim>\<open>int\<close> or \<^verbatim>\<open>float\<close> and
  for \<^verbatim>\<open>False\<close>; \<^verbatim>\<open>-\<close> and \<^verbatim>\<open>>=\<close> are defined between numbers and raise \<^verbatim>\<open>TypeError\<close> on
  \<^verbatim>\<open>None\<close>, strings, lists and dicts.
\<close>

fun py_num :: "pyval \<Rightarrow> real option" where
  "py_num (PInt n) = Some (of_int n)"
| "py_num (PFloat x) = Some x"
| "py_num (PBool b) = Some (if b then 1 else 0)"
| "py_num _ = None"

definition py_eq_zero :: "pyval \<Rightarrow> bool" where
  "py_eq_zero v = (py_num v = Some 0)"

text \<open>
  The unused test reads three fields of the raw window, each with default 0:
  \<^verbatim>\<open>used_pct == 0 and reset_after >= window_length - 1\<close>. Nothing guards it.
\<close>

definition codex_is_unused :: "pyval \<Rightarrow> error + bool" where
  "codex_is_unused raw =
     (case py_get raw ''used_percent'' (PInt 0) of
        Inl e \<Rightarrow> Inl e
      | Inr used_pct \<Rightarrow>
          (case py_get raw ''reset_after_seconds'' (PInt 0) of
             Inl e \<Rightarrow> Inl e
           | Inr reset_after \<Rightarrow>
               (case py_get raw ''limit_window_seconds'' (PInt 0) of
                  Inl e \<Rightarrow> Inl e
                | Inr len \<Rightarrow>
                    if py_eq_zero used_pct then
                      (case py_num len of
                         None \<Rightarrow> Inl TypeError
                       | Some l \<Rightarrow>
                           (case py_num reset_after of
                              None \<Rightarrow> Inl TypeError
                            | Some r \<Rightarrow> Inr (r \<ge> l - 1)))
                    else Inr False)))"

text \<open>The clock is read three times here: the fourth reading of \<open>clock\<close> is not used.\<close>

definition codex_classify ::
  "'o pylib \<Rightarrow> clock \<Rightarrow> WindowUsage \<Rightarrow> WindowUsage \<Rightarrow> pyval \<Rightarrow> pyval \<Rightarrow> bool
     \<Rightarrow> error + classified" where
  "codex_classify L clk p_win s_win p_raw s_raw show5h =
     (let p_reset_str = reset_str L (t_short clk) p_win;
          s_reset_str = reset_str L (t_long clk) s_win;
          ch = codex_select show5h p_win s_win p_raw s_raw;
          pct = py_round (utilization (target_win ch))
      in case codex_is_unused (target_raw ch) of
           Inl e \<Rightarrow> Inl e
         | Inr is_unused \<Rightarrow>
             (let not_started = window_not_started (target_win ch);
                  st = derive_status s_win is_unused not_started;
                  reset = reset_str L (t_active clk) (target_win ch)
              in Inr \<lparr>c_alt = win_type ch, c_pct = pct, c_status = st, c_reset = reset,
                  c_data =
                    [(''5h_pct'', Number (py_round (utilization p_win))),
                     (''7d_pct'', Number (py_round (utilization s_win))),
                     (''5h_reset'', Text p_reset_str),
                     (''7d_reset'', Text s_reset_str),
                     (''icon'', Text codex_icon_styled),
                     (''icon_plain'', Text codex_icon_plain),
                     (''time_icon'', Text codex_time_icon_styled),
                     (''time_icon_plain'', Text time_icon_plain),
                     (''status'', Text st),
                     (''pct'', Number pct),
                     (''reset'', Text reset),
                     (''win'', Text (win_type ch))]\<rparr>))"

text \<open>Text, tooltip and class, as in \<^verbatim>\<open>claude.py\<close>; the percentage is that of the active window.\<close>

definition codex_output ::
  "'o pylib \<Rightarrow> clock \<Rightarrow> WindowUsage \<Rightarrow> WindowUsage \<Rightarrow> pyval \<Rightarrow> pyval \<Rightarrow> string option
     \<Rightarrow> string option \<Rightarrow> bool \<Rightarrow> error + waybar_output" where
  "codex_output L clk p_win s_win p_raw s_raw format_str tooltip_format show5h =
     (case codex_classify L clk p_win s_win p_raw s_raw show5h of
        Inl e \<Rightarrow> Inl e
      | Inr c \<Rightarrow>
          (let data = map_of (c_data c) in
           case render_or_default L format_str data
                  (default_text codex_icon_styled codex_time_icon_styled
                     (c_status c) (c_pct c) (c_reset c)) of
             Inl e \<Rightarrow> Inl e
           | Inr txt \<Rightarrow>
               (case render_or_default L tooltip_format data
                       (default_tooltip L p_win s_win (reset_str L (t_short clk) p_win)
                          (reset_str L (t_long clk) s_win)) of
                  Inl e \<Rightarrow> Inl e
                | Inr tip \<Rightarrow>
                    Inr \<lparr>out_text = txt, out_tooltip = tip, out_class = codex_cls (c_pct c),
                         out_alt = c_alt c, out_percentage = c_pct c\<rparr>)))"

text \<open>
  \<^verbatim>\<open>print_waybar\<close> of \<^verbatim>\<open>codex.py\<close>: the two windows are under \<^verbatim>\<open>rate_limit\<close>, and the raw
  mappings are kept for the unused test.
\<close>

definition codex_print_waybar ::
  "'o pylib \<Rightarrow> clock \<Rightarrow> pyval \<Rightarrow> string option \<Rightarrow> string option \<Rightarrow> bool \<Rightarrow> error + string" where
  "codex_print_waybar L clk usage format_str tooltip_format show5h =
     (case py_get usage ''rate_limit'' PNone of
        Inl e \<Rightarrow> Inl e
      | Inr rl \<Rightarrow>
          (let rate = py_or rl (PDict []) in
           case py_get rate ''primary_window'' PNone of
             Inl e \<Rightarrow> Inl e
           | Inr pw \<Rightarrow>
               (case parse_window_direct L pw of
                  Inl e \<Rightarrow> Inl e
                | Inr p_win \<Rightarrow>
                    (case py_get rate ''secondary_window'' PNone of
                       Inl e \<Rightarrow> Inl e
                     | Inr sw \<Rightarrow>
                         (case parse_window_direct L sw of
                            Inl e \<Rightarrow> Inl e
                          | Inr s_win \<Rightarrow>
                              (let p_raw = py_or pw (PDict []); s_raw = py_or sw (PDict []) in
                               case codex_output L clk p_win s_win p_raw s_raw
                                      format_str tooltip_format show5h of
                                 Inl e \<Rightarrow> Inl e
                               | Inr ob \<Rightarrow> Inr (dumps_output ob)))))))"

text \<open>
  For statements about the unused test of \<^verbatim>\<open>codex.py\<close>: the fields of a raw window it reads.
\<close>





subsection \<open>The entry points\<close>

text \<open>\<^verbatim>\<open>sub in s\<close> for strings.\<close>

fun py_in :: "string \<Rightarrow> string \<Rightarrow> bool" where
  "py_in sub [] = (sub = [])"
| "py_in sub (c # cs) = (take (length sub) (c # cs) = sub \<or> py_in sub cs)"

text \<open>
  \<^verbatim>\<open>print_cli(usage)\<close>: the lines printed, and the exception that ended the call if one
  did. The raw document is printed before the windows are parsed.
\<close>

definition claude_fmt_reset :: "'o pylib \<Rightarrow> int \<Rightarrow> WindowUsage \<Rightarrow> string" where
  "claude_fmt_reset L now win =
     (if utilization win = 0 \<and> resets_at win = PNone then ''Not started''
      else format_eta L now (resets_at win))"

definition claude_print_cli :: "'o pylib \<Rightarrow> clock \<Rightarrow> pyval \<Rightarrow> string list \<times> error option" where
  "claude_print_cli L clk usage =
     (let shown1 = [dumps_indent L usage] in
      case py_get usage ''five_hour'' PNone of
        Inl e \<Rightarrow> (shown1, Some e)
      | Inr r5 \<Rightarrow>
          (case parse_window_percent L r5 ''utilization'' of
             Inl e \<Rightarrow> (shown1, Some e)
           | Inr fh \<Rightarrow>
               (case py_get usage ''seven_day'' PNone of
                  Inl e \<Rightarrow> (shown1, Some e)
                | Inr r7 \<Rightarrow>
                    (case parse_window_percent L r7 ''utilization'' of
                       Inl e \<Rightarrow> (shown1, Some e)
                     | Inr sd \<Rightarrow>
                         (shown1 @
                          [replicate 40 (CHR ''-''),
                           ''5-hour : '' @ format_float L (utilization fh) ''.1f''
                             @ ''%  (Reset in '' @ claude_fmt_reset L (t_short clk) fh @ '')'',
                           ''7-day  : '' @ format_float L (utilization sd) ''.1f''
                             @ ''%  (Reset in '' @ claude_fmt_reset L (t_long clk) sd @ '')''],
                          None)))))"

definition codex_print_cli :: "'o pylib \<Rightarrow> clock \<Rightarrow> pyval \<Rightarrow> string list \<times> error option" where
  "codex_print_cli L clk usage =
     (let shown1 = [dumps_indent L usage] in
      case py_get usage ''rate_limit'' PNone of
        Inl e \<Rightarrow> (shown1, Some e)
      | Inr rl \<Rightarrow>
          (let rate = py_or rl (PDict []) in
           case py_get rate ''primary_window'' PNone of
             Inl e \<Rightarrow> (shown1, Some e)
           | Inr pw \<Rightarrow>
               (case parse_window_direct L pw of
                  Inl e \<Rightarrow> (shown1, Some e)
                | Inr p \<Rightarrow>
                    (case py_get rate ''secondary_window'' PNone of
                       Inl e \<Rightarrow> (shown1, Some e)
                     | Inr sw \<Rightarrow>
                         (case parse_window_direct L sw of
                            Inl e \<Rightarrow> (shown1, Some e)
                          | Inr s \<Rightarrow>
                              (shown1 @
                               [replicate 40 (CHR ''-''),
                                ''Primary   (Short): '' @ format_float L (utilization p) ''>5.1f''
                                  @ ''% | Reset in '' @ format_eta L (t_short clk) (resets_at p),
                                ''Secondary (Long) : '' @ format_float L (utilization s) ''>5.1f''
                                  @ ''% | Reset in '' @ format_eta L (t_long clk) (resets_at s)],
                               None))))))"

text \<open>The command line, as \<^verbatim>\<open>argparse\<close> hands it to \<^verbatim>\<open>main\<close>.\<close>

record args =
  arg_waybar :: bool
  arg_browser :: "string list option"
  arg_format :: "string option"
  arg_tooltip_format :: "string option"
  arg_show_5h :: bool

text \<open>
  How a run ends: the process exits with what it wrote to the two streams (one list
  element per \<^verbatim>\<open>print\<close>) and its exit code, or an exception escapes \<^verbatim>\<open>main\<close> after some
  output.
\<close>

datatype run =
    Exited "string list" "string list" int
  | Uncaught "string list" error

text \<open>The error object of the status bar.\<close>

definition claude_error_payload :: "string \<Rightarrow> string" where
  "claude_error_payload err_msg =
     (let short_err = (if py_in ''403'' err_msg then ''Auth Err'' else ''Net Err'') in
      json_object
        [(''text'', json_str (''<span foreground='#ff5555'>'' @ claude_icon_plain @ '' ''
                               @ short_err @ ''</span>'')),
         (''tooltip'', json_str (''Error fetching Claude usage:\<newline>'' @ err_msg)),
         (''class'', json_str ''critical'')])"

definition codex_error_payload :: "string \<Rightarrow> string" where
  "codex_error_payload err_msg =
     (let short_err = (if py_in ''403'' err_msg \<or> py_in ''401'' err_msg then ''Auth Err''
                       else ''Net Err'') in
      json_object
        [(''text'', json_str (''<span foreground='#ff5555'>'' @ codex_icon_plain @ '' ''
                               @ short_err @ ''</span>'')),
         (''tooltip'', json_str (''Error:\<newline>'' @ err_msg)),
         (''class'', json_str ''critical'')])"

text \<open>
  \<^verbatim>\<open>main()\<close>. The argument \<open>fetched\<close> is how the call that retrieves the usage ended
  (\<^verbatim>\<open>get_claude_usage\<close>, \<^verbatim>\<open>get_codex_usage\<close>): \<open>Inl msg\<close> when it raised an \<^verbatim>\<open>Exception\<close>
  whose text is \<open>msg\<close>, \<open>Inr usage\<close> when it returned the decoded response.
\<close>

definition claude_main :: "'o pylib \<Rightarrow> clock \<Rightarrow> args \<Rightarrow> string + pyval \<Rightarrow> run" where
  "claude_main L clk a fetched =
     (case fetched of
        Inl err_msg \<Rightarrow>
          if arg_waybar a then Exited [claude_error_payload err_msg] [] 0
          else Exited [] [''[!] Critical Error: '' @ err_msg] 1
      | Inr usage \<Rightarrow>
          if arg_waybar a then
            (case claude_print_waybar L clk usage (arg_format a) (arg_tooltip_format a)
                    (arg_show_5h a) of
               Inl e \<Rightarrow> Uncaught [] e
             | Inr line \<Rightarrow> Exited [line] [] 0)
          else
            (case claude_print_cli L clk usage of
               (shown_lines, None) \<Rightarrow> Exited shown_lines [] 0
             | (shown_lines, Some e) \<Rightarrow> Uncaught shown_lines e))"

definition codex_main :: "'o pylib \<Rightarrow> clock \<Rightarrow> args \<Rightarrow> string + pyval \<Rightarrow> run" where
  "codex_main L clk a fetched =
     (case fetched of
        Inl err_msg \<Rightarrow>
          if arg_waybar a then Exited [codex_error_payload err_msg] [] 0
          else Exited [] [''[!] Critical Error: '' @ err_msg] 1
      | Inr usage \<Rightarrow>
          if arg_waybar a then
            (case codex_print_waybar L clk usage (arg_format a) (arg_tooltip_format a)
                    (arg_show_5h a) of
               Inl e \<Rightarrow> Uncaught [] e
             | Inr line \<Rightarrow> Exited [line] [] 0)
          else
            (case codex_print_cli L clk usage of
               (shown_lines, None) \<Rightarrow> Exited shown_lines [] 0
             | (shown_lines, Some e) \<Rightarrow> Uncaught shown_lines e))"

text \<open>
  A library for the closed examples below: \<^verbatim>\<open>float\<close> and \<^verbatim>\<open>fromisoformat\<close> accept a
  string or two, and nothing beyond a plain replacement field is supported.
\<close>

definition example_lib :: "unit pylib" where
  "example_lib =
     \<lparr>float_of_str = (\<lambda>s. if s = ''12.5'' then Some (25 / 2) else None),
      fromisoformat = (\<lambda>s. if s = ''1970-01-02T00:00:00+00:00'' then Some (Aware 86400000000)
                            else if s = ''1970-01-02T00:00:00'' then Some (Naive 86400000000)
                            else None),
      format_float = (\<lambda>x spec. []),
      dumps_indent = (\<lambda>v. []),
      resolve_field = (\<lambda>v rest conv. Inl AttributeError),
      format_value = (\<lambda>ob spec. Inl ValueError)\<rparr>"

section \<open>Theorems\<close>

subsection \<open>The window parser\<close>

lemma py_get_mapping:
  "is_mapping_or_none raw \<Longrightarrow> py_get (py_or raw (PDict [])) k PNone = Inr (raw_field raw k)"
  by (cases raw) (auto simp: py_or_def split: option.splits)

lemma py_float_falsy:
  "\<not> numeric L v \<Longrightarrow> (case py_float L (py_or v (PInt 0)) of Inl e \<Rightarrow> 0 | Inr x \<Rightarrow> x) = 0"
  by (cases v) (auto simp: py_or_def numeric_def split: option.splits sum.splits if_splits)

text \<open>
  C7. On a mapping or \<^verbatim>\<open>None\<close> both window parsers return a window and never raise:
  \<^verbatim>\<open>resets_at\<close> is the value under the reset key, passed through as it is; the
  utilization is 0 when the value under the utilization key is missing or not numeric;
  and \<^verbatim>\<open>None\<close> gives utilization 0 and no reset.
\<close>

theorem parse_window_never_raises:
  assumes "is_mapping_or_none raw"
  shows "(\<exists>w. parse_window_percent L raw key = Inr w
            \<and> resets_at w = raw_field raw ''resets_at''
            \<and> (\<not> numeric L (raw_field raw key) \<longrightarrow> utilization w = 0)
            \<and> (raw = PNone \<longrightarrow> w = \<lparr>utilization = 0, resets_at = PNone\<rparr>))
       \<and> (\<exists>w. parse_window_direct L raw = Inr w
            \<and> resets_at w = raw_field raw ''reset_at''
            \<and> (\<not> numeric L (raw_field raw ''used_percent'') \<longrightarrow> utilization w = 0)
            \<and> (raw = PNone \<longrightarrow> w = \<lparr>utilization = 0, resets_at = PNone\<rparr>))"
proof -
  have none: "raw = PNone \<Longrightarrow> raw_field raw k = PNone" for k
    by simp
  have zero: "py_float L (py_or PNone (PInt 0)) = Inr 0"
    by (simp add: py_or_def)
  show ?thesis
    using assms
    by (auto simp: parse_window_percent_def parse_window_direct_def Let_def py_get_mapping
        py_float_falsy none zero)
qed

theorem parse_window_never_raises_witness:
  "is_mapping_or_none (PDict [(''utilization'', PStr ''n/a''), (''resets_at'', PInt 5)])
   \<and> parse_window_percent example_lib
        (PDict [(''utilization'', PStr ''n/a''), (''resets_at'', PInt 5)]) ''utilization''
      = Inr \<lparr>utilization = 0, resets_at = PInt 5\<rparr>
   \<and> parse_window_direct example_lib PNone = Inr \<lparr>utilization = 0, resets_at = PNone\<rparr>"
  using parse_window_never_raises
          [of "PDict [(''utilization'', PStr ''n/a''), (''resets_at'', PInt 5)]"
              example_lib "''utilization''"]
        parse_window_never_raises [of PNone example_lib "''utilization''"]
  by (auto simp: numeric_def example_lib_def)

subsection \<open>The ETA formatter\<close>











text \<open>
  C10. Every falsy reset argument (\<^verbatim>\<open>None\<close>, the integer 0, the empty string, and any
  other falsy object) makes \<^verbatim>\<open>format_eta\<close> return the placeholder for an absent reset,
  which is not the \<^verbatim>\<open>0m00s\<close> of an elapsed one: no delta is computed for epoch 0.
\<close>

theorem format_eta_falsy_is_absent:
  "(\<not> truthy r \<longrightarrow> format_eta L now r = absent_placeholder)
   \<and> format_eta L now PNone = absent_placeholder
   \<and> format_eta L now (PInt 0) = absent_placeholder
   \<and> format_eta L now (PStr []) = absent_placeholder
   \<and> absent_placeholder \<noteq> ''0m00s''
   \<and> absent_placeholder
       = [CHR ''0'', CHR 0xE2, CHR 0x80, CHR 0xB2, CHR ''0'', CHR ''0'', CHR 0xE2, CHR 0x80, CHR 0xB3]"
  by (simp add: format_eta_def absent_placeholder_def prime_def dprime_def)

theorem format_eta_falsy_is_absent_witness:
  "\<not> truthy (PFloat 0) \<and> format_eta example_lib 5000000 (PFloat 0) = absent_placeholder
   \<and> format_eta example_lib 5000000 (PInt 0) \<noteq> ''0m00s''"
  using format_eta_falsy_is_absent [of "PFloat 0" example_lib 5000000]
  by simp

subsection \<open>The window classifier\<close>


text \<open>
  C4. The active window, for every pair of windows and either value of the force flag:
  the short window when the flag is set; otherwise the long window when its utilization
  is at least 100, or above 80; otherwise the short window, so the short window at
  exactly 80. Both front ends choose so, and the label, the rounded percentage and the
  reset string of the output are those of the chosen window.
\<close>

theorem active_window_precedence:
  "(show5h \<longrightarrow> target (claude_select show5h fh sd) = fh
               \<and> win_name (claude_select show5h fh sd) = ''5h'')
   \<and> (\<not> show5h \<and> utilization sd \<ge> 100 \<longrightarrow>
         target (claude_select show5h fh sd) = sd \<and> win_name (claude_select show5h fh sd) = ''7d'')
   \<and> (\<not> show5h \<and> utilization sd < 100 \<and> utilization sd > 80 \<longrightarrow>
         target (claude_select show5h fh sd) = sd \<and> win_name (claude_select show5h fh sd) = ''7d'')
   \<and> (\<not> show5h \<and> utilization sd \<le> 80 \<longrightarrow>
         target (claude_select show5h fh sd) = fh \<and> win_name (claude_select show5h fh sd) = ''5h'')
   \<and> (show5h \<longrightarrow> target_win (codex_select show5h fh sd rs rl) = fh
               \<and> target_raw (codex_select show5h fh sd rs rl) = rs
               \<and> win_type (codex_select show5h fh sd rs rl) = ''Primary'')
   \<and> (\<not> show5h \<and> utilization sd \<ge> 100 \<longrightarrow>
         target_win (codex_select show5h fh sd rs rl) = sd
         \<and> target_raw (codex_select show5h fh sd rs rl) = rl
         \<and> win_type (codex_select show5h fh sd rs rl) = ''Secondary'')
   \<and> (\<not> show5h \<and> utilization sd < 100 \<and> utilization sd > 80 \<longrightarrow>
         target_win (codex_select show5h fh sd rs rl) = sd
         \<and> target_raw (codex_select show5h fh sd rs rl) = rl
         \<and> win_type (codex_select show5h fh sd rs rl) = ''Secondary'')
   \<and> (\<not> show5h \<and> utilization sd \<le> 80 \<longrightarrow>
         target_win (codex_select show5h fh sd rs rl) = fh
         \<and> target_raw (codex_select show5h fh sd rs rl) = rs
         \<and> win_type (codex_select show5h fh sd rs rl) = ''Primary'')
   \<and> c_alt (claude_classify L clk fh sd show5h) = win_name (claude_select show5h fh sd)
   \<and> c_pct (claude_classify L clk fh sd show5h)
       = py_round (utilization (target (claude_select show5h fh sd)))
   \<and> c_reset (claude_classify L clk fh sd show5h)
       = reset_str L (t_active clk) (target (claude_select show5h fh sd))
   \<and> (\<forall>c. codex_classify L clk fh sd rs rl show5h = Inr c \<longrightarrow>
          c_alt c = win_type (codex_select show5h fh sd rs rl)
          \<and> c_pct c = py_round (utilization (target_win (codex_select show5h fh sd rs rl)))
          \<and> c_reset c = reset_str L (t_active clk) (target_win (codex_select show5h fh sd rs rl)))"
proof -
  have sel: "(show5h \<longrightarrow> target (claude_select show5h fh sd) = fh
               \<and> win_name (claude_select show5h fh sd) = ''5h'')
   \<and> (\<not> show5h \<and> utilization sd \<ge> 100 \<longrightarrow>
         target (claude_select show5h fh sd) = sd \<and> win_name (claude_select show5h fh sd) = ''7d'')
   \<and> (\<not> show5h \<and> utilization sd < 100 \<and> utilization sd > 80 \<longrightarrow>
         target (claude_select show5h fh sd) = sd \<and> win_name (claude_select show5h fh sd) = ''7d'')
   \<and> (\<not> show5h \<and> utilization sd \<le> 80 \<longrightarrow>
         target (claude_select show5h fh sd) = fh \<and> win_name (claude_select show5h fh sd) = ''5h'')"
    by (simp add: claude_select_def)
  have selx: "(show5h \<longrightarrow> target_win (codex_select show5h fh sd rs rl) = fh
               \<and> target_raw (codex_select show5h fh sd rs rl) = rs
               \<and> win_type (codex_select show5h fh sd rs rl) = ''Primary'')
   \<and> (\<not> show5h \<and> utilization sd \<ge> 100 \<longrightarrow>
         target_win (codex_select show5h fh sd rs rl) = sd
         \<and> target_raw (codex_select show5h fh sd rs rl) = rl
         \<and> win_type (codex_select show5h fh sd rs rl) = ''Secondary'')
   \<and> (\<not> show5h \<and> utilization sd < 100 \<and> utilization sd > 80 \<longrightarrow>
         target_win (codex_select show5h fh sd rs rl) = sd
         \<and> target_raw (codex_select show5h fh sd rs rl) = rl
         \<and> win_type (codex_select show5h fh sd rs rl) = ''Secondary'')
   \<and> (\<not> show5h \<and> utilization sd \<le> 80 \<longrightarrow>
         target_win (codex_select show5h fh sd rs rl) = fh
         \<and> target_raw (codex_select show5h fh sd rs rl) = rs
         \<and> win_type (codex_select show5h fh sd rs rl) = ''Primary'')"
    by (simp add: codex_select_def)
  have cl: "c_alt (claude_classify L clk fh sd show5h) = win_name (claude_select show5h fh sd)
   \<and> c_pct (claude_classify L clk fh sd show5h)
       = py_round (utilization (target (claude_select show5h fh sd)))
   \<and> c_reset (claude_classify L clk fh sd show5h)
       = reset_str L (t_active clk) (target (claude_select show5h fh sd))"
    by (simp add: claude_classify_def Let_def)
  have cx: "\<forall>c. codex_classify L clk fh sd rs rl show5h = Inr c \<longrightarrow>
          c_alt c = win_type (codex_select show5h fh sd rs rl)
          \<and> c_pct c = py_round (utilization (target_win (codex_select show5h fh sd rs rl)))
          \<and> c_reset c = reset_str L (t_active clk) (target_win (codex_select show5h fh sd rs rl))"
    by (auto simp: codex_classify_def Let_def split: sum.splits)
  from sel selx cl cx show ?thesis
    by blast
qed

theorem active_window_precedence_witness:
  "\<not> False \<and> utilization \<lparr>utilization = 80, resets_at = PInt 5\<rparr> \<le> 80
   \<and> target (claude_select False \<lparr>utilization = 3, resets_at = PNone\<rparr>
                \<lparr>utilization = 80, resets_at = PInt 5\<rparr>)
       = \<lparr>utilization = 3, resets_at = PNone\<rparr>
   \<and> win_type (codex_select False \<lparr>utilization = 3, resets_at = PNone\<rparr>
                \<lparr>utilization = 80, resets_at = PInt 5\<rparr> (PDict []) (PDict [])) = ''Primary''
   \<and> (\<exists>c. codex_classify example_lib \<lparr>t_short = 0, t_long = 0, t_unused = 0, t_active = 0\<rparr>
              \<lparr>utilization = 3, resets_at = PNone\<rparr> \<lparr>utilization = 80, resets_at = PInt 5\<rparr>
              (PDict []) (PDict []) False = Inr c
          \<and> c_alt c = ''Primary'' \<and> c_pct c = 3)"
proof -
  let ?fh = "\<lparr>utilization = 3, resets_at = PNone\<rparr>"
  let ?sd = "\<lparr>utilization = 80, resets_at = PInt 5\<rparr>"
  let ?clk = "\<lparr>t_short = 0, t_long = 0, t_unused = 0, t_active = 0\<rparr>"
  note t = active_window_precedence [of False ?fh ?sd "PDict []" "PDict []" example_lib ?clk]
  have u: "codex_is_unused (PDict []) = Inr True"
    by (simp add: codex_is_unused_def py_eq_zero_def)
  have "\<exists>c. codex_classify example_lib ?clk ?fh ?sd (PDict []) (PDict []) False = Inr c"
    by (simp add: codex_classify_def codex_select_def Let_def u)
  moreover have "py_round 3 = 3"
    by (simp add: py_round_def)
  ultimately show ?thesis
    using t by auto
qed




text \<open>
  C6. The class is \<^verbatim>\<open>low\<close> for a percentage below 50, \<^verbatim>\<open>mid\<close> from 50 to 79 and
  \<^verbatim>\<open>high\<close> from 80 on, behind the prefix of the front end; 49, 50, 79 and 80 fall as
  the thresholds say. The class of the output object is that of the rounded percentage
  of the active window.
\<close>

theorem severity_class_thresholds:
  "(pct < 50 \<longrightarrow> claude_cls pct = ''claude-low'' \<and> codex_cls pct = ''codex-low'')
   \<and> (50 \<le> pct \<and> pct < 80 \<longrightarrow> claude_cls pct = ''claude-mid'' \<and> codex_cls pct = ''codex-mid'')
   \<and> (80 \<le> pct \<longrightarrow> claude_cls pct = ''claude-high'' \<and> codex_cls pct = ''codex-high'')
   \<and> claude_cls 49 = ''claude-low'' \<and> claude_cls 50 = ''claude-mid''
   \<and> claude_cls 79 = ''claude-mid'' \<and> claude_cls 80 = ''claude-high''
   \<and> codex_cls 49 = ''codex-low'' \<and> codex_cls 50 = ''codex-mid''
   \<and> codex_cls 79 = ''codex-mid'' \<and> codex_cls 80 = ''codex-high''
   \<and> (\<forall>ob. claude_output L clk fh sd fmt tip show5h = Inr ob \<longrightarrow>
          out_class ob = claude_cls (py_round (utilization (target (claude_select show5h fh sd)))))
   \<and> (\<forall>ob. codex_output L clk fh sd rs rl fmt tip show5h = Inr ob \<longrightarrow>
          out_class ob
            = codex_cls (py_round (utilization (target_win (codex_select show5h fh sd rs rl)))))"
proof -
  have a: "(pct < 50 \<longrightarrow> claude_cls pct = ''claude-low'' \<and> codex_cls pct = ''codex-low'')
   \<and> (50 \<le> pct \<and> pct < 80 \<longrightarrow> claude_cls pct = ''claude-mid'' \<and> codex_cls pct = ''codex-mid'')
   \<and> (80 \<le> pct \<longrightarrow> claude_cls pct = ''claude-high'' \<and> codex_cls pct = ''codex-high'')"
    by (simp add: claude_cls_def codex_cls_def)
  have b: "claude_cls 49 = ''claude-low'' \<and> claude_cls 50 = ''claude-mid''
   \<and> claude_cls 79 = ''claude-mid'' \<and> claude_cls 80 = ''claude-high''
   \<and> codex_cls 49 = ''codex-low'' \<and> codex_cls 50 = ''codex-mid''
   \<and> codex_cls 79 = ''codex-mid'' \<and> codex_cls 80 = ''codex-high''"
    by (simp add: claude_cls_def codex_cls_def)
  have c: "\<forall>ob. claude_output L clk fh sd fmt tip show5h = Inr ob \<longrightarrow>
          out_class ob = claude_cls (py_round (utilization (target (claude_select show5h fh sd))))"
    by (auto simp: claude_output_def claude_classify_def Let_def split: sum.splits)
  have d: "\<forall>ob. codex_output L clk fh sd rs rl fmt tip show5h = Inr ob \<longrightarrow>
          out_class ob
            = codex_cls (py_round (utilization (target_win (codex_select show5h fh sd rs rl))))"
    by (auto simp: codex_output_def codex_classify_def Let_def split: sum.splits)
  from a b c d show ?thesis
    by blast
qed

theorem severity_class_thresholds_witness:
  "(79::int) < 80 \<and> 50 \<le> (79::int) \<and> claude_cls 79 = ''claude-mid'' \<and> codex_cls 79 = ''codex-mid''
   \<and> (\<exists>ob. claude_output example_lib \<lparr>t_short = 0, t_long = 0, t_unused = 0, t_active = 0\<rparr>
          \<lparr>utilization = 0, resets_at = PNone\<rparr> \<lparr>utilization = 477 / 5, resets_at = PInt 18000\<rparr>
          None (Some ''{pct}'') False = Inr ob \<and> out_class ob = ''claude-high'')"
proof -
  let ?fh = "\<lparr>utilization = 0, resets_at = PNone\<rparr>"
  let ?sd = "\<lparr>utilization = 477 / 5, resets_at = PInt 18000\<rparr>"
  let ?clk = "\<lparr>t_short = 0, t_long = 0, t_unused = 0, t_active = 0\<rparr>"
  note t = severity_class_thresholds [of 79 example_lib ?clk ?fh ?sd None "Some ''{pct}''" False]
  have r: "py_round (477 / 5) = 95"
    by (simp add: py_round_def)
  have m: "markup ''{pct}'' = [Literal [], Replace ''pct'' None []]"
    by (simp add: markup.simps is_brace_def parse_field_def)
  have "format_output example_lib ''{pct}''
          (map_of (c_data (claude_classify example_lib ?clk ?fh ?sd False))) = Inr ''95''"
    by (simp add: format_output_def match_multi_def match_single_def str_format_def m
        render_field_def field_first_def field_rest_def is_digit_def claude_classify_def Let_def
        claude_select_def r show_int_def show_nat.simps)
  then have "\<exists>ob. claude_output example_lib ?clk ?fh ?sd None (Some ''{pct}'') False = Inr ob"
    by (simp add: claude_output_def render_or_default_def Let_def)
  with t r show ?thesis
    by (auto simp: claude_select_def claude_cls_def)
qed





subsection \<open>The entry points\<close>

lemma hex4_no_newline: "CHR 0x0A \<notin> set (hex4 n)"
proof -
  define H where "H = ''0123456789abcdef''"
  have mem: "H ! (k mod 16) \<in> set H" for k :: nat
    by (rule nth_mem) (simp add: H_def)
  have nl: "CHR 0x0A \<notin> set H"
    by (simp add: H_def)
  have ne: "H ! (k mod 16) \<noteq> CHR 0x0A" for k :: nat
    using mem [of k] nl by metis
  have "CHR 0x0A \<notin> set (map (\<lambda>d. H ! d)
      [n div 4096 mod 16, n div 256 mod 16, n div 16 mod 16, n mod 16])"
    using ne [of "n div 4096"] ne [of "n div 256"] ne [of "n div 16"] ne [of n]
    by (simp add: eq_commute)
  then show ?thesis
    unfolding hex4_def H_def .
qed

lemma u_escape_no_newline: "CHR 0x0A \<notin> set (u_escape cp)"
  by (simp add: u_escape_def Let_def hex4_no_newline)

lemma escape_ascii_no_newline: "CHR 0x0A \<notin> set (escape_ascii c)"
  by (simp add: escape_ascii_def u_escape_no_newline)

lemma json_escape_no_newline: "CHR 0x0A \<notin> set (json_escape s)"
  by (induction s rule: json_escape.induct)
    (auto simp: Let_def u_escape_no_newline escape_ascii_no_newline split: list.splits)

lemma json_str_no_newline: "CHR 0x0A \<notin> set (json_str s)"
  by (simp add: json_str_def json_escape_no_newline)

text \<open>
  C9. When retrieving the usage raises an exception, \<^verbatim>\<open>main\<close> of either front end, in
  waybar mode, prints one JSON object (text, tooltip, class \<^verbatim>\<open>critical\<close>) on a single line
  and exits with code 0; without \<^verbatim>\<open>--waybar\<close> it prints \<^verbatim>\<open>[!] Critical Error:\<close> and the
  message on the error stream, nothing on the output, and exits with code 1.
\<close>

theorem fetch_failure_exit_codes:
  "(arg_waybar a \<longrightarrow>
      claude_main L clk a (Inl msg) = Exited [claude_error_payload msg] [] 0
      \<and> codex_main L clk a (Inl msg) = Exited [codex_error_payload msg] [] 0)
   \<and> (\<not> arg_waybar a \<longrightarrow>
      claude_main L clk a (Inl msg) = Exited [] [''[!] Critical Error: '' @ msg] 1
      \<and> codex_main L clk a (Inl msg) = Exited [] [''[!] Critical Error: '' @ msg] 1)
   \<and> CHR 0x0A \<notin> set (claude_error_payload msg)
   \<and> CHR 0x0A \<notin> set (codex_error_payload msg)
   \<and> (\<exists>short. claude_error_payload msg =
         json_object
           [(''text'', json_str (''<span foreground='#ff5555'>'' @ claude_icon_plain @ '' ''
                                  @ short @ ''</span>'')),
            (''tooltip'', json_str (''Error fetching Claude usage:\<newline>'' @ msg)),
            (''class'', json_str ''critical'')])
   \<and> (\<exists>short. codex_error_payload msg =
         json_object
           [(''text'', json_str (''<span foreground='#ff5555'>'' @ codex_icon_plain @ '' ''
                                  @ short @ ''</span>'')),
            (''tooltip'', json_str (''Error:\<newline>'' @ msg)),
            (''class'', json_str ''critical'')])"
proof -
  have a: "arg_waybar a \<longrightarrow>
      claude_main L clk a (Inl msg) = Exited [claude_error_payload msg] [] 0
      \<and> codex_main L clk a (Inl msg) = Exited [codex_error_payload msg] [] 0"
    by (simp add: claude_main_def codex_main_def)
  have b: "\<not> arg_waybar a \<longrightarrow>
      claude_main L clk a (Inl msg) = Exited [] [''[!] Critical Error: '' @ msg] 1
      \<and> codex_main L clk a (Inl msg) = Exited [] [''[!] Critical Error: '' @ msg] 1"
    by (simp add: claude_main_def codex_main_def)
  have c: "CHR 0x0A \<notin> set (claude_error_payload msg)"
    by (simp add: claude_error_payload_def Let_def json_object_def json_str_no_newline)
  have d: "CHR 0x0A \<notin> set (codex_error_payload msg)"
    by (simp add: codex_error_payload_def Let_def json_object_def json_str_no_newline)
  have e: "\<exists>short. claude_error_payload msg =
         json_object
           [(''text'', json_str (''<span foreground='#ff5555'>'' @ claude_icon_plain @ '' ''
                                  @ short @ ''</span>'')),
            (''tooltip'', json_str (''Error fetching Claude usage:\<newline>'' @ msg)),
            (''class'', json_str ''critical'')]"
    unfolding claude_error_payload_def Let_def by (rule exI) (rule refl)
  have f: "\<exists>short. codex_error_payload msg =
         json_object
           [(''text'', json_str (''<span foreground='#ff5555'>'' @ codex_icon_plain @ '' ''
                                  @ short @ ''</span>'')),
            (''tooltip'', json_str (''Error:\<newline>'' @ msg)),
            (''class'', json_str ''critical'')]"
    unfolding codex_error_payload_def Let_def by (rule exI) (rule refl)
  from a b c d e f show ?thesis
    by blast
qed

theorem fetch_failure_exit_codes_witness:
  "arg_waybar \<lparr>arg_waybar = True, arg_browser = None, arg_format = None,
                arg_tooltip_format = None, arg_show_5h = False\<rparr>
   \<and> claude_main example_lib \<lparr>t_short = 0, t_long = 0, t_unused = 0, t_active = 0\<rparr>
        \<lparr>arg_waybar = True, arg_browser = None, arg_format = None,
         arg_tooltip_format = None, arg_show_5h = False\<rparr>
        (Inl ''Request failed: 403'')
       = Exited [claude_error_payload ''Request failed: 403''] [] 0
   \<and> \<not> arg_waybar \<lparr>arg_waybar = False, arg_browser = None, arg_format = None,
                  arg_tooltip_format = None, arg_show_5h = False\<rparr>
   \<and> codex_main example_lib \<lparr>t_short = 0, t_long = 0, t_unused = 0, t_active = 0\<rparr>
        \<lparr>arg_waybar = False, arg_browser = None, arg_format = None,
         arg_tooltip_format = None, arg_show_5h = False\<rparr>
        (Inl ''Request failed: 403'')
       = Exited [] [''[!] Critical Error: Request failed: 403''] 1"
  using fetch_failure_exit_codes
          [of "\<lparr>arg_waybar = True, arg_browser = None, arg_format = None,
                arg_tooltip_format = None, arg_show_5h = False\<rparr>"
              example_lib "\<lparr>t_short = 0, t_long = 0, t_unused = 0, t_active = 0\<rparr>"
              "''Request failed: 403''"]
        fetch_failure_exit_codes
          [of "\<lparr>arg_waybar = False, arg_browser = None, arg_format = None,
                arg_tooltip_format = None, arg_show_5h = False\<rparr>"
              example_lib "\<lparr>t_short = 0, t_long = 0, t_unused = 0, t_active = 0\<rparr>"
              "''Request failed: 403''"]
  by simp

subsection \<open>The template engine\<close>

lemma match_multi_start: "match_multi s = Some m \<Longrightarrow> take 2 s = ''{?''"
  by (cases m) (auto dest!: match_multi_split)

lemma match_single_start: "match_single s = Some m \<Longrightarrow> take 2 s = ''{?''"
  by (cases m) (auto dest!: match_single_split)

lemma no_opening_here:
  assumes "\<not> py_in ''{?'' (c # p)" and "rest = [] \<or> hd rest \<noteq> CHR ''?''"
  shows "take 2 (c # p @ rest) \<noteq> ''{?''"
proof (cases p)
  case Nil
  with assms show ?thesis by (cases rest) auto
next
  case (Cons y ys)
  with assms show ?thesis by auto
qed

lemma sub_multi_prefix:
  assumes "\<not> py_in ''{?'' pre" and "rest = [] \<or> hd rest \<noteq> CHR ''?''"
  shows "sub_multi L d (pre @ rest) =
           (case sub_multi L d rest of Inl e \<Rightarrow> Inl e | Inr t \<Rightarrow> Inr (pre @ t))"
  using assms
proof (induction pre)
  case Nil
  show ?case by (simp split: sum.splits)
next
  case (Cons c p)
  from Cons.prems have "take 2 (c # p @ rest) \<noteq> ''{?''"
    by (rule no_opening_here)
  then have m: "match_multi (c # p @ rest) = None"
    using match_multi_start [of "c # p @ rest"] by (cases "match_multi (c # p @ rest)") auto
  from Cons.prems have "\<not> py_in ''{?'' p"
    by simp
  with Cons have "sub_multi L d (p @ rest) =
           (case sub_multi L d rest of Inl e \<Rightarrow> Inl e | Inr t \<Rightarrow> Inr (p @ t))"
    by simp
  with m show ?case
    by (simp split: sum.splits)
qed

lemma sub_single_prefix:
  assumes "\<not> py_in ''{?'' pre" and "rest = [] \<or> hd rest \<noteq> CHR ''?''"
  shows "sub_single L d (pre @ rest) =
           (case sub_single L d rest of Inl e \<Rightarrow> Inl e | Inr t \<Rightarrow> Inr (pre @ t))"
  using assms
proof (induction pre)
  case Nil
  show ?case by (simp split: sum.splits)
next
  case (Cons c p)
  from Cons.prems have "take 2 (c # p @ rest) \<noteq> ''{?''"
    by (rule no_opening_here)
  then have m: "match_single (c # p @ rest) = None"
    using match_single_start [of "c # p @ rest"] by (cases "match_single (c # p @ rest)") auto
  from Cons.prems have "\<not> py_in ''{?'' p"
    by simp
  with Cons have "sub_single L d (p @ rest) =
           (case sub_single L d rest of Inl e \<Rightarrow> Inl e | Inr t \<Rightarrow> Inr (p @ t))"
    by simp
  with m show ?case
    by (simp split: sum.splits)
qed

lemma passes_identity:
  assumes "\<not> py_in ''{?'' s"
  shows "sub_multi L d s = Inr s" and "sub_single L d s = Inr s"
  using sub_multi_prefix [OF assms, of "[]" L d] sub_single_prefix [OF assms, of "[]" L d]
  by simp_all










lemma render_field_missing:
  assumes "data (field_first name) = None"
  shows "\<exists>e. render_field L data ex name conv spec = Inl e"
  using assms by (simp add: render_field_def Let_def)

lemma render_all_fails:
  assumes "Replace name conv spec \<in> set segs" and "data (field_first name) = None"
  shows "\<exists>e. render_all L data ex segs = Inl e"
  using assms
proof (induction L data ex segs rule: render_all.induct)
  case (1 L data expand)
  then show ?case by simp
next
  case (2 L data expand t segs)
  then show ?case by (auto split: sum.splits)
next
  case (3 L data expand n c sp segs)
  show ?case
  proof (cases "render_field L data expand n c sp")
    case (Inl e)
    then show ?thesis by simp
  next
    case (Inr r)
    with 3 render_field_missing [of data name L expand conv spec]
    have "Replace name conv spec \<in> set segs"
      by auto
    with 3 Inr show ?thesis
      by (auto split: sum.splits)
  qed
next
  case (4 L data expand segs)
  show ?case by simp
qed

lemma scan_name_plain:
  assumes "\<forall>c\<in>set n. c \<notin> set ''{}[]:!.?''"
  shows "scan_name False (n @ CHR ''}'' # rest) = Some (n, CHR ''}'', rest)"
  using assms by (induction n) auto

lemma parse_field_plain:
  assumes "\<forall>c\<in>set n. c \<notin> set ''{}[]:!.?''"
  shows "parse_field (n @ CHR ''}'' # rest) = Some (Replace n None [], rest)"
  by (simp add: parse_field_def scan_name_plain [OF assms])

lemma takeWhile_brace_free:
  assumes "brace_free t"
  shows "takeWhile (\<lambda>c. \<not> is_brace c) (t @ CHR ''{'' # r) = t"
    and "dropWhile (\<lambda>c. \<not> is_brace c) (t @ CHR ''{'' # r) = CHR ''{'' # r"
  using assms by (induction t) (auto simp: brace_free_def is_brace_def)

lemma markup_plain_field:
  assumes "brace_free t" and "plain_name n"
  shows "markup (t @ ''{'' @ n @ ''}'' @ rest) = Literal t # Replace n None [] # markup rest"
proof -
  from assms(2) obtain x xs where n: "n = x # xs" and x: "x \<noteq> CHR ''{''"
    by (cases n) (auto simp: plain_name_def)
  from assms(2) have p: "\<forall>c\<in>set n. c \<notin> set ''{}[]:!.?''"
    by (simp add: plain_name_def)
  have pf: "parse_field (x # xs @ CHR ''}'' # rest) = Some (Replace n None [], rest)"
    using parse_field_plain [OF p, of rest] by (simp add: n)
  show ?thesis
    by (subst markup.simps)
      (simp add: takeWhile_brace_free [OF assms(1)] n x pf Let_def)
qed

lemma markup_brace_free:
  assumes "brace_free t"
  shows "markup t = (if t = [] then [] else [Literal t])"
proof -
  have tw: "takeWhile (\<lambda>c. \<not> is_brace c) t = t"
    using assms by (auto simp: brace_free_def)
  have dw: "dropWhile (\<lambda>c. \<not> is_brace c) t = []"
    using assms by (auto simp: brace_free_def)
  show ?thesis
    by (subst markup.simps) (simp add: Let_def tw dw)
qed

lemma render_field_plain:
  assumes "plain_name n"
  shows "render_field L data ex n None [] =
           (case data n of None \<Rightarrow> Inl (KeyError n) | Some v \<Rightarrow> Inr (py_str v))"
proof -
  from assms have nd: "\<forall>c\<in>set n. c \<noteq> CHR ''.'' \<and> c \<noteq> CHR ''[''"
    by (auto simp: plain_name_def)
  have tw: "takeWhile (\<lambda>c. c \<noteq> CHR ''.'' \<and> c \<noteq> CHR ''['') n = n"
    using nd by auto
  have dw: "dropWhile (\<lambda>c. c \<noteq> CHR ''.'' \<and> c \<noteq> CHR ''['') n = []"
    using nd by auto
  from assms have ne: "n \<noteq> []" and dg: "\<not> list_all is_digit n"
    by (simp_all add: plain_name_def)
  show ?thesis
    by (simp add: render_field_def field_first_def field_rest_def Let_def tw dw ne dg
        split: option.splits)
qed

lemma render_template:
  assumes "\<forall>(t, n)\<in>set ps. brace_free t \<and> plain_name n" and "brace_free tail"
  shows "render_all L data ex (markup (template ps tail)) =
           (if \<forall>(t, n)\<in>set ps. data n \<noteq> None then Inr (filled data ps tail)
            else Inl (KeyError (snd (hd (filter (\<lambda>(t, n). data n = None) ps)))))"
  using assms(1)
proof (induction ps)
  case Nil
  show ?case
    using markup_brace_free [OF assms(2)] by (simp add: template_def filled_def)
next
  case (Cons p ps)
  obtain t n where p: "p = (t, n)"
    by (cases p)
  from Cons.prems p have tn: "brace_free t" "plain_name n"
    and rest: "\<forall>(t, n)\<in>set ps. brace_free t \<and> plain_name n"
    by auto
  have tm: "template (p # ps) tail = t @ ''{'' @ n @ ''}'' @ template ps tail"
    by (simp add: template_def p)
  have fl: "filled data (p # ps) tail
              = t @ (case data n of None \<Rightarrow> [] | Some v \<Rightarrow> py_str v) @ filled data ps tail"
    by (simp add: filled_def p)
  show ?case
    unfolding tm markup_plain_field [OF tn] fl
    using Cons.IH [OF rest]
    by (auto simp: render_field_plain [OF tn(2)] p split: option.splits sum.splits)
qed

lemma no_opening_append:
  assumes "\<not> py_in ''{?'' a" and "\<not> py_in ''{?'' b"
    and "a = [] \<or> last a \<noteq> CHR ''{'' \<or> b = [] \<or> hd b \<noteq> CHR ''?''"
  shows "\<not> py_in ''{?'' (a @ b)"
  using assms
proof (induction a)
  case Nil
  then show ?case by simp
next
  case (Cons x xs)
  show ?case
  proof (cases xs)
    case Nil
    with Cons.prems show ?thesis
      by (cases b) auto
  next
    case (Cons y ys)
    with Cons.prems Cons.IH show ?thesis
      by auto
  qed
qed

lemma brace_free_no_opening: "brace_free t \<Longrightarrow> \<not> py_in ''{?'' t"
proof (induction t)
  case Nil
  show ?case by simp
next
  case (Cons x xs)
  then have "x \<noteq> CHR ''{''" "brace_free xs"
    by (auto simp: brace_free_def is_brace_def)
  with Cons.IH show ?case
    by (cases xs) auto
qed

lemma field_no_opening:
  assumes "plain_name n"
  shows "\<not> py_in ''{?'' (''{'' @ n @ ''}'')"
proof -
  from assms obtain x xs where n: "n = x # xs" and x: "x \<noteq> CHR ''?''"
    and xs: "CHR ''{'' \<notin> set (x # xs)"
    by (cases n) (auto simp: plain_name_def)
  have "\<not> py_in ''{?'' (ys @ ''}'')" if "CHR ''{'' \<notin> set ys" for ys
    using that
  proof (induction ys)
    case Nil
    show ?case by simp
  next
    case (Cons z zs)
    then show ?case by (cases zs) auto
  qed
  from this [OF xs] x show ?thesis
    by (simp add: n)
qed

lemma template_no_opening:
  assumes "\<forall>(t, n)\<in>set ps. brace_free t \<and> plain_name n" and "brace_free tail"
  shows "\<not> py_in ''{?'' (template ps tail)"
  using assms(1)
proof (induction ps)
  case Nil
  show ?case
    using brace_free_no_opening [OF assms(2)] by (simp add: template_def)
next
  case (Cons p ps)
  obtain t n where p: "p = (t, n)"
    by (cases p)
  from Cons.prems p have tn: "brace_free t" "plain_name n"
    and rest: "\<forall>(t, n)\<in>set ps. brace_free t \<and> plain_name n"
    by auto
  have tm: "template (p # ps) tail = t @ (''{'' @ n @ ''}'') @ template ps tail"
    by (simp add: template_def p)
  have a: "\<not> py_in ''{?'' ((''{'' @ n @ ''}'') @ template ps tail)"
    using field_no_opening [OF tn(2)] Cons.IH [OF rest]
    by (rule no_opening_append) simp
  have l: "t = [] \<or> last t \<noteq> CHR ''{''"
    using tn(1) by (cases t rule: rev_cases) (auto simp: brace_free_def is_brace_def)
  have "\<not> py_in ''{?'' (t @ ((''{'' @ n @ ''}'') @ template ps tail))"
  proof (rule no_opening_append)
    show "\<not> py_in ''{?'' t"
      by (rule brace_free_no_opening [OF tn(1)])
    show "\<not> py_in ''{?'' ((''{'' @ n @ ''}'') @ template ps tail)"
      by (rule a)
    show "t = [] \<or> last t \<noteq> CHR ''{'' \<or> (''{'' @ n @ ''}'') @ template ps tail = []
            \<or> hd ((''{'' @ n @ ''}'') @ template ps tail) \<noteq> CHR ''?''"
      using l by blast
  qed
  then show ?case
    unfolding tm .
qed

text \<open>
  C8. Let the two conditional passes have returned a text. If a replacement field of
  that text names a key that the mapping does not have, \<^verbatim>\<open>format_output\<close> raises: no
  output is produced and the field is not dropped. A format string of literal text and
  plain fields only renders to the same text with the value of each name in place of
  its field when every name is a key, and raises \<^verbatim>\<open>KeyError\<close> for the first name that is
  not.
\<close>

theorem unknown_field_fails_render:
  "(\<forall>r1 r. sub_multi L data fmt = Inr r1 \<and> sub_single L data r1 = Inr r
        \<and> Replace name conv spec \<in> set (markup r) \<and> data (field_first name) = None
      \<longrightarrow> (\<exists>e. format_output L fmt data = Inl e))
   \<and> ((\<forall>(t, n)\<in>set ps. brace_free t \<and> plain_name n) \<and> brace_free tail \<longrightarrow>
        format_output L (template ps tail) data =
          (if \<forall>(t, n)\<in>set ps. data n \<noteq> None then Inr (filled data ps tail)
           else Inl (KeyError (snd (hd (filter (\<lambda>(t, n). data n = None) ps))))))"
proof (intro conjI allI impI)
  fix r1 r
  assume h: "sub_multi L data fmt = Inr r1 \<and> sub_single L data r1 = Inr r
        \<and> Replace name conv spec \<in> set (markup r) \<and> data (field_first name) = None"
  then have "\<exists>e. render_all L data (build_string (Suc 0) L data) (markup r) = Inl e"
    using render_all_fails [of name conv spec "markup r" data L] by blast
  with h show "\<exists>e. format_output L fmt data = Inl e"
    by (simp add: format_output_def str_format_def)
next
  assume h: "(\<forall>(t, n)\<in>set ps. brace_free t \<and> plain_name n) \<and> brace_free tail"
  then have p: "\<forall>(t, n)\<in>set ps. brace_free t \<and> plain_name n" and t: "brace_free tail"
    by simp_all
  have "\<not> py_in ''{?'' (template ps tail)"
    using p t by (rule template_no_opening)
  then have "format_output L (template ps tail) data = str_format L (template ps tail) data"
    by (simp add: format_output_def passes_identity)
  also have "\<dots> = render_all L data (build_string (Suc 0) L data) (markup (template ps tail))"
    by (simp add: str_format_def)
  also have "\<dots> = (if \<forall>(t, n)\<in>set ps. data n \<noteq> None then Inr (filled data ps tail)
           else Inl (KeyError (snd (hd (filter (\<lambda>(t, n). data n = None) ps)))))"
    using p t by (rule render_template)
  finally show "format_output L (template ps tail) data =
          (if \<forall>(t, n)\<in>set ps. data n \<noteq> None then Inr (filled data ps tail)
           else Inl (KeyError (snd (hd (filter (\<lambda>(t, n). data n = None) ps)))))" .
qed

theorem unknown_field_fails_render_witness:
  "sub_multi example_lib (map_of [(''icon'', Text ''I''), (''pct'', Number 42)]) ''{icon} {nope}''
     = Inr ''{icon} {nope}''
   \<and> sub_single example_lib (map_of [(''icon'', Text ''I''), (''pct'', Number 42)]) ''{icon} {nope}''
     = Inr ''{icon} {nope}''
   \<and> Replace ''nope'' None [] \<in> set (markup ''{icon} {nope}'')
   \<and> map_of [(''icon'', Text ''I''), (''pct'', Number 42)] (field_first ''nope'') = None
   \<and> (\<exists>e. format_output example_lib ''{icon} {nope}''
              (map_of [(''icon'', Text ''I''), (''pct'', Number 42)]) = Inl e)
   \<and> brace_free []
   \<and> plain_name ''icon''
   \<and> brace_free '' ''
   \<and> plain_name ''pct''
   \<and> brace_free ''%''
   \<and> template [([], ''icon''), ('' '', ''pct'')] ''%'' = ''{icon} {pct}%''
   \<and> format_output example_lib ''{icon} {pct}%''
        (map_of [(''icon'', Text ''I''), (''pct'', Number 42)]) = Inr ''I 42%''"
proof -
  let ?d = "map_of [(''icon'', Text ''I''), (''pct'', Number 42)]"
  let ?ps = "[([], ''icon''), ('' '', ''pct'')]"
  note t = unknown_field_fails_render [of example_lib ?d "''{icon} {nope}''" "''nope''" None "[]"
      ?ps "''%''"]
  have m: "sub_multi example_lib ?d ''{icon} {nope}'' = Inr ''{icon} {nope}''"
    by (simp add: match_multi_def)
  have s: "sub_single example_lib ?d ''{icon} {nope}'' = Inr ''{icon} {nope}''"
    by (simp add: match_single_def)
  have k: "Replace ''nope'' None [] \<in> set (markup ''{icon} {nope}'')"
    by (simp add: markup.simps is_brace_def parse_field_def)
  have n: "?d (field_first ''nope'') = None"
    by (simp add: field_first_def)
  have e: "\<exists>e. format_output example_lib ''{icon} {nope}'' ?d = Inl e"
    using t [THEN conjunct1] m s k n by blast
  have b: "brace_free []" "brace_free '' ''" "brace_free ''%''"
    by (simp_all add: brace_free_def is_brace_def)
  have p: "plain_name ''icon''" "plain_name ''pct''"
    by (simp_all add: plain_name_def is_digit_def)
  have tm: "template ?ps ''%'' = ''{icon} {pct}%''"
    by (simp add: template_def)
  have h: "(\<forall>(t, n)\<in>set ?ps. brace_free t \<and> plain_name n) \<and> brace_free ''%''"
    using b p by simp
  have a: "\<forall>(t, n)\<in>set ?ps. ?d n \<noteq> None"
    by simp
  have fl: "filled ?d ?ps ''%'' = ''I 42%''"
    by (simp add: filled_def show_int_def show_nat.simps)
  have "format_output example_lib (template ?ps ''%'') ?d = Inr (filled ?d ?ps ''%'')"
    using t [THEN conjunct2] h a by simp
  then have f: "format_output example_lib ''{icon} {pct}%'' ?d = Inr ''I 42%''"
    unfolding tm fl .
  from m s k n e b p tm f show ?thesis
    by blast
qed

end
